theory Spec2Isabelle
  imports Main
begin

section \<open>Python values and exceptions\<close>

text \<open>
  The two modules \<^verbatim>\<open>groq_base.py\<close> and \<^verbatim>\<open>llama_base.py\<close> are thin adapters over three
  libraries: \<^verbatim>\<open>datetime\<close>, \<^verbatim>\<open>json\<close> and \<^verbatim>\<open>requests\<close>. Exceptions are values of the type
  \<open>exn\<close>; a computation that may raise returns \<open>exn + 'a\<close> with \<open>Inl\<close> for the raised
  exception. A constructor stands for the exception class and all of its subclasses, so
  \<open>RequestException msg\<close> is any instance \<open>e\<close> of \<^verbatim>\<open>requests.exceptions.RequestException\<close>
  (\<^verbatim>\<open>HTTPError\<close>, \<^verbatim>\<open>ConnectionError\<close>, \<^verbatim>\<open>Timeout\<close>, ...) with \<^verbatim>\<open>str(e) = msg\<close>.
  Python strings are modelled as \<open>string\<close>, that is, with code points below 256; among
  these the regular expression class \<^verbatim>\<open>\d\<close> holds exactly the ten ASCII digits.
\<close>

datatype exn =
    ValueError string
  | NameError string
  | RequestException string
  | OtherException string

section \<open>Calendar dates: the part of \<^verbatim>\<open>datetime\<close> that \<^verbatim>\<open>format_date\<close> uses\<close>

text \<open>
  A \<^verbatim>\<open>datetime\<close> object is reduced to its calendar fields: \<^verbatim>\<open>format_date\<close> only parses
  and prints year, month and day (the time fields of a parsed value are zero and
  \<^verbatim>\<open>strftime("%Y-%m-%d")\<close> never reads them).
\<close>

record date =
  year :: nat
  month :: nat
  day :: nat

definition is_leap :: "nat \<Rightarrow> bool" where
  "is_leap y \<longleftrightarrow> y mod 4 = 0 \<and> (y mod 100 \<noteq> 0 \<or> y mod 400 = 0)"

definition days_in_month :: "nat \<Rightarrow> nat \<Rightarrow> nat" where
  "days_in_month y m =
     (if m = 2 then (if is_leap y then 29 else 28)
      else if m = 4 \<or> m = 6 \<or> m = 9 \<or> m = 11 then 30
      else 31)"

definition MINYEAR :: nat where "MINYEAR = 1"
definition MAXYEAR :: nat where "MAXYEAR = 9999"

text \<open>
  The constructor \<^verbatim>\<open>datetime(year, month, day)\<close> checks its fields in this order and
  raises \<^verbatim>\<open>ValueError\<close> on the first one out of range.
\<close>

definition datetime_new :: "nat \<Rightarrow> nat \<Rightarrow> nat \<Rightarrow> exn + date" where
  "datetime_new y m d =
     (if \<not> (MINYEAR \<le> y \<and> y \<le> MAXYEAR) then Inl (ValueError ''year is out of range'')
      else if \<not> (1 \<le> m \<and> m \<le> 12) then Inl (ValueError ''month must be in 1..12'')
      else if \<not> (1 \<le> d \<and> d \<le> days_in_month y m)
        then Inl (ValueError ''day is out of range for month'')
      else Inr \<lparr>year = y, month = m, day = d\<rparr>)"

definition valid_date :: "date \<Rightarrow> bool" where
  "valid_date dt \<longleftrightarrow>
     MINYEAR \<le> year dt \<and> year dt \<le> MAXYEAR \<and> 1 \<le> month dt \<and> month dt \<le> 12 \<and>
     1 \<le> day dt \<and> day dt \<le> days_in_month (year dt) (month dt)"

subsection \<open>Digits and decimal numerals\<close>

definition is_digit :: "char \<Rightarrow> bool" where
  "is_digit c \<longleftrightarrow> (48::nat) \<le> of_char c \<and> (of_char c :: nat) \<le> 57"

definition in_range :: "char \<Rightarrow> char \<Rightarrow> char \<Rightarrow> bool" where
  "in_range lo hi c \<longleftrightarrow> (of_char lo :: nat) \<le> of_char c \<and> (of_char c :: nat) \<le> of_char hi"

definition digit_char :: "nat \<Rightarrow> char" where
  "digit_char k = char_of (48 + k mod 10)"

definition digit_val :: "char \<Rightarrow> nat" where
  "digit_val c = of_char c - 48"

text \<open>\<^verbatim>\<open>str(n)\<close> for a natural number, and \<^verbatim>\<open>str(i)\<close> for an integer.\<close>

fun str_nat :: "nat \<Rightarrow> string" where
  "str_nat n = (if n < 10 then [digit_char n] else str_nat (n div 10) @ [digit_char n])"

definition str_int :: "int \<Rightarrow> string" where
  "str_int i = (if i < 0 then CHR ''-'' # str_nat (nat (- i)) else str_nat (nat i))"

definition zfill :: "nat \<Rightarrow> string \<Rightarrow> string" where
  "zfill w s = replicate (w - length s) CHR ''0'' @ s"

text \<open>
  \<^verbatim>\<open>int(s)\<close> on the text of a regular-expression group: surrounding blanks are stripped
  (the day group may be \<^verbatim>\<open>" 5"\<close>), then every character must be a digit.
\<close>

definition py_int :: "string \<Rightarrow> exn + nat" where
  "py_int s =
     (let t = rev (dropWhile (\<lambda>c. c = CHR '' '') (rev (dropWhile (\<lambda>c. c = CHR '' '') s)))
      in if t = [] \<or> \<not> list_all is_digit t then Inl (ValueError ''invalid literal for int()'')
         else Inr (foldl (\<lambda>acc c. 10 * acc + digit_val c) 0 t))"

subsection \<open>\<^verbatim>\<open>strftime\<close> and \<^verbatim>\<open>strptime\<close>\<close>

text \<open>
  A format string is a sequence of directives \<^verbatim>\<open>%c\<close> and literal characters. Only the
  directives the source uses are modelled: \<^verbatim>\<open>%Y\<close>, \<^verbatim>\<open>%m\<close> and \<^verbatim>\<open>%d\<close>; any other directive
  is rejected with \<^verbatim>\<open>ValueError\<close>, as a bad directive is. Literals are the separators
  \<^verbatim>\<open>-\<close> and \<^verbatim>\<open>/\<close>, which match themselves.
\<close>

datatype token = Directive char | Literal char

fun tokens :: "string \<Rightarrow> token list" where
  "tokens [] = []"
| "tokens [c] = [Literal c]"
| "tokens (c # c' # cs) =
     (if c = CHR ''%'' then Directive c' # tokens cs else Literal c # tokens (c' # cs))"

definition known_directive :: "char \<Rightarrow> bool" where
  "known_directive c \<longleftrightarrow> c = CHR ''Y'' \<or> c = CHR ''m'' \<or> c = CHR ''d''"

text \<open>
  Printing is done by the C library's \<^verbatim>\<open>strftime\<close>, which CPython calls. On Linux (glibc)
  \<^verbatim>\<open>%Y\<close> is the decimal year without padding, so the year 999 prints as \<^verbatim>\<open>999\<close> and the
  year 1 as \<^verbatim>\<open>1\<close>; \<^verbatim>\<open>%m\<close> and \<^verbatim>\<open>%d\<close> are zero-padded to two digits.
\<close>

fun strftime_token :: "date \<Rightarrow> token \<Rightarrow> string" where
  "strftime_token dt (Literal c) = [c]"
| "strftime_token dt (Directive c) =
     (if c = CHR ''Y'' then str_nat (year dt)
      else if c = CHR ''m'' then zfill 2 (str_nat (month dt))
      else if c = CHR ''d'' then zfill 2 (str_nat (day dt))
      else [CHR ''%'', c])"

definition strftime :: "date \<Rightarrow> string \<Rightarrow> string" where
  "strftime dt format = concat (map (strftime_token dt) (tokens format))"

text \<open>
  Parsing follows \<^verbatim>\<open>_strptime.py\<close>: the format is turned into a regular expression, one
  named group per directive,
  \<^verbatim>\<open>%Y = \d\d\d\d\<close>, \<^verbatim>\<open>%m = 1[0-2]|0[1-9]|[1-9]\<close>,
  \<^verbatim>\<open>%d = 3[0-1]|[1-2]\d|0[1-9]|[1-9]| [1-9]\<close>,
  which is matched at the start of the data by a backtracking matcher that tries the
  alternatives of a group from left to right. \<open>alternatives\<close> lists, in that order, the
  ways a group can match a prefix of the text: the captured text and what follows it.
\<close>

definition alt2 :: "(char \<Rightarrow> bool) \<Rightarrow> (char \<Rightarrow> bool) \<Rightarrow> string \<Rightarrow> (string \<times> string) list" where
  "alt2 p q s =
     (case s of a # b # r \<Rightarrow> (if p a \<and> q b then [([a, b], r)] else []) | _ \<Rightarrow> [])"

definition alt1 :: "(char \<Rightarrow> bool) \<Rightarrow> string \<Rightarrow> (string \<times> string) list" where
  "alt1 p s = (case s of a # r \<Rightarrow> (if p a then [([a], r)] else []) | _ \<Rightarrow> [])"

definition alternatives :: "char \<Rightarrow> string \<Rightarrow> (string \<times> string) list" where
  "alternatives c s =
     (if c = CHR ''Y'' then
        (case s of y1 # y2 # y3 # y4 # r \<Rightarrow>
           (if is_digit y1 \<and> is_digit y2 \<and> is_digit y3 \<and> is_digit y4
            then [([y1, y2, y3, y4], r)] else [])
         | _ \<Rightarrow> [])
      else if c = CHR ''m'' then
        alt2 (\<lambda>a. a = CHR ''1'') (in_range CHR ''0'' CHR ''2'') s
        @ alt2 (\<lambda>a. a = CHR ''0'') (in_range CHR ''1'' CHR ''9'') s
        @ alt1 (in_range CHR ''1'' CHR ''9'') s
      else if c = CHR ''d'' then
        alt2 (\<lambda>a. a = CHR ''3'') (in_range CHR ''0'' CHR ''1'') s
        @ alt2 (in_range CHR ''1'' CHR ''2'') is_digit s
        @ alt2 (\<lambda>a. a = CHR ''0'') (in_range CHR ''1'' CHR ''9'') s
        @ alt1 (in_range CHR ''1'' CHR ''9'') s
        @ alt2 (\<lambda>a. a = CHR '' '') (in_range CHR ''1'' CHR ''9'') s
      else [])"

text \<open>
  \<open>re_match ts s\<close> lists every way the whole expression matches a prefix of \<open>s\<close>, in the
  order the backtracking matcher finds them: the groups captured and the unmatched rest.
  \<^verbatim>\<open>re.match\<close> returns the first one.
\<close>

fun re_match :: "token list \<Rightarrow> string \<Rightarrow> ((char \<times> string) list \<times> string) list" where
  "re_match [] s = [([], s)]"
| "re_match (Literal c # ts) s =
     (case s of [] \<Rightarrow> [] | x # xs \<Rightarrow> (if x = c then re_match ts xs else []))"
| "re_match (Directive c # ts) s =
     concat (map (\<lambda>(cap, r). map (\<lambda>(caps, r'). ((c, cap) # caps, r')) (re_match ts r))
                 (alternatives c s))"

text \<open>
  A directive absent from the format leaves its field at the default (1900, 1, 1).
\<close>

definition group_int :: "(char \<times> string) list \<Rightarrow> char \<Rightarrow> nat \<Rightarrow> exn + nat" where
  "group_int caps c dflt = (case map_of caps c of None \<Rightarrow> Inr dflt | Some t \<Rightarrow> py_int t)"

definition strptime :: "string \<Rightarrow> string \<Rightarrow> exn + date" where
  "strptime data_string format =
     (let ts = tokens format in
      if \<exists>t \<in> set ts. (case t of Directive c \<Rightarrow> \<not> known_directive c | Literal _ \<Rightarrow> False)
        then Inl (ValueError ''bad directive in format'')
      else
        (case re_match ts data_string of
           [] \<Rightarrow> Inl (ValueError ''time data does not match format'')
         | (caps, rest) # _ \<Rightarrow>
             if rest \<noteq> [] then Inl (ValueError ''unconverted data remains'')
             else
               (case group_int caps CHR ''Y'' 1900 of Inl e \<Rightarrow> Inl e | Inr y \<Rightarrow>
               (case group_int caps CHR ''m'' 1 of Inl e \<Rightarrow> Inl e | Inr m \<Rightarrow>
               (case group_int caps CHR ''d'' 1 of Inl e \<Rightarrow> Inl e | Inr d \<Rightarrow>
                  datetime_new y m d)))))"

section \<open>JSON values and \<^verbatim>\<open>json.dumps\<close>\<close>

text \<open>
  The Python values that \<^verbatim>\<open>response.json()\<close> can produce: \<^verbatim>\<open>None\<close>, booleans,
  integers, floats, strings, lists and dictionaries with string keys (in insertion
  order). The same type is used for what a tool returns, so a Python \<^verbatim>\<open>str\<close> result is
  \<open>JStr\<close> and a \<^verbatim>\<open>dict\<close> result is \<open>JObj\<close>. Floating-point numbers are kept abstract
  (the type parameter \<open>'f\<close>); their printed form is a parameter of the serializer.
\<close>

datatype 'f json =
    JNull
  | JBool bool
  | JInt int
  | JFloat 'f
  | JStr string
  | JArr "'f json list"
  | JObj "(string \<times> 'f json) list"

definition hex_char :: "nat \<Rightarrow> char" where
  "hex_char k = (if k mod 16 < 10 then char_of (48 + k mod 16) else char_of (87 + k mod 16))"

text \<open>
  String escaping with \<^verbatim>\<open>ensure_ascii=True\<close> (the default): printable ASCII other than
  the backslash and the double quote is kept; everything else is escaped.
\<close>

definition escape_char :: "char \<Rightarrow> string" where
  "escape_char c =
     (if c = CHR 0x5C then [CHR 0x5C, CHR 0x5C]
      else if c = CHR 0x22 then [CHR 0x5C, CHR 0x22]
      else if c = CHR 0x08 then [CHR 0x5C, CHR ''b'']
      else if c = CHR 0x0C then [CHR 0x5C, CHR ''f'']
      else if c = CHR 0x0A then [CHR 0x5C, CHR ''n'']
      else if c = CHR 0x0D then [CHR 0x5C, CHR ''r'']
      else if c = CHR 0x09 then [CHR 0x5C, CHR ''t'']
      else if (32::nat) \<le> of_char c \<and> (of_char c :: nat) \<le> 126 then [c]
      else [CHR 0x5C, CHR ''u'', CHR ''0'', CHR ''0'',
            hex_char (of_char c div 16), hex_char (of_char c)])"

definition encode_basestring_ascii :: "string \<Rightarrow> string" where
  "encode_basestring_ascii s = [CHR 0x22] @ concat (map escape_char s) @ [CHR 0x22]"

fun join :: "string \<Rightarrow> string list \<Rightarrow> string" where
  "join sep [] = []"
| "join sep [x] = x"
| "join sep (x # y # ys) = x @ sep @ join sep (y # ys)"

text \<open>
  \<^verbatim>\<open>json.dumps(obj)\<close> with its default arguments: item separator \<^verbatim>\<open>", "\<close>, key separator
  \<^verbatim>\<open>": "\<close>, no indentation, keys in dictionary order. \<open>floatstr\<close> prints a float.
\<close>

fun json_dumps :: "('f \<Rightarrow> string) \<Rightarrow> 'f json \<Rightarrow> string" where
  "json_dumps floatstr JNull = ''null''"
| "json_dumps floatstr (JBool b) = (if b then ''true'' else ''false'')"
| "json_dumps floatstr (JInt i) = str_int i"
| "json_dumps floatstr (JFloat x) = floatstr x"
| "json_dumps floatstr (JStr s) = encode_basestring_ascii s"
| "json_dumps floatstr (JArr xs) =
     ''['' @ join '', '' (map (json_dumps floatstr) xs) @ '']''"
| "json_dumps floatstr (JObj kvs) =
     ''{'' @ join '', ''
        (map (\<lambda>kv. encode_basestring_ascii (fst kv) @ '': '' @ json_dumps floatstr (snd kv)) kvs)
      @ ''}''"

section \<open>The outside world: HTTP and the system clock\<close>

text \<open>
  A \<^verbatim>\<open>requests.Response\<close> is reduced to what the source reads from it: the status code,
  the fields that \<^verbatim>\<open>raise_for_status\<close> prints, and the outcome of \<^verbatim>\<open>response.json()\<close>,
  which is either the decoded body or the exception that decoding raises.
\<close>

record 'f response =
  status_code :: nat
  reason :: string
  resp_url :: string
  json_result :: "exn + 'f json"

type_synonym headers = "(string \<times> string option) list"
type_synonym request = "string \<times> headers"

text \<open>
  The world answers each call of \<^verbatim>\<open>requests.get\<close> (it may depend on the calls made
  before) either by raising or with a response, and each read of the system clock with a
  date. \<open>requested\<close> is the log of the calls of \<^verbatim>\<open>requests.get\<close> made so far and
  \<open>clock_reads\<close> counts the reads of the clock.
\<close>

record 'f world =
  network :: "request list \<Rightarrow> request \<Rightarrow> exn + 'f response"
  requested :: "request list"
  clock :: "nat \<Rightarrow> date"
  clock_reads :: nat

definition requests_get :: "string \<Rightarrow> headers \<Rightarrow> 'f world \<Rightarrow> (exn + 'f response) \<times> 'f world" where
  "requests_get url hdrs w =
     (network w (requested w) (url, hdrs), w\<lparr>requested := requested w @ [(url, hdrs)]\<rparr>)"

definition datetime_today :: "'f world \<Rightarrow> date \<times> 'f world" where
  "datetime_today w = (clock w (clock_reads w), w\<lparr>clock_reads := Suc (clock_reads w)\<rparr>)"

text \<open>
  \<^verbatim>\<open>Response.raise_for_status\<close> of the \<^verbatim>\<open>requests\<close> library raises \<^verbatim>\<open>HTTPError\<close> (a
  \<^verbatim>\<open>RequestException\<close>) for a status code from 400 to 599 and returns for every other
  status code.
\<close>

definition raise_for_status :: "'f response \<Rightarrow> exn + unit" where
  "raise_for_status r =
     (if 400 \<le> status_code r \<and> status_code r < 500 then
        Inl (RequestException (str_nat (status_code r) @ '' Client Error: '' @ reason r
                                 @ '' for url: '' @ resp_url r))
      else if 500 \<le> status_code r \<and> status_code r < 600 then
        Inl (RequestException (str_nat (status_code r) @ '' Server Error: '' @ reason r
                                 @ '' for url: '' @ resp_url r))
      else Inr ())"

text \<open>The module-level settings, read from the environment when the module is loaded.\<close>

record globals =
  SECTORS_API_KEY :: "string option"
  URL_API :: "string option"

definition str_opt :: "string option \<Rightarrow> string" where
  "str_opt x = (case x of None \<Rightarrow> ''None'' | Some s \<Rightarrow> s)"

type_synonym 'f result = "(exn + 'f json) \<times> 'f world"

section \<open>\<^verbatim>\<open>groq_base.py\<close>\<close>

definition groq_retrieve_from_endpoint ::
  "('f \<Rightarrow> string) \<Rightarrow> globals \<Rightarrow> string \<Rightarrow> 'f world \<Rightarrow> 'f result" where
  "groq_retrieve_from_endpoint floatstr g url w =
     (let hdrs = [(''Authorization'', SECTORS_API_KEY g)];
          (got, w') = requests_get url hdrs w
      in case got of
           Inl e \<Rightarrow> (Inl e, w')
         | Inr response \<Rightarrow>
             (case raise_for_status response of
                Inl e \<Rightarrow> (Inl e, w')
              | Inr _ \<Rightarrow>
                  (case json_result response of
                     Inl e \<Rightarrow> (Inl e, w')
                   | Inr body \<Rightarrow> (Inr (JStr (json_dumps floatstr body)), w'))))"

text \<open>
  The module defines \<^verbatim>\<open>get_company_overview\<close> twice; the two function bodies are kept
  apart by the line of their \<^verbatim>\<open>def\<close>.
\<close>

definition groq_get_company_overview_line23 ::
  "('f \<Rightarrow> string) \<Rightarrow> globals \<Rightarrow> string \<Rightarrow> 'f world \<Rightarrow> 'f result" where
  "groq_get_company_overview_line23 floatstr g stock w =
     (let url = str_opt (URL_API g) @ ''/get_qcc_tema_by_team''
      in groq_retrieve_from_endpoint floatstr g url w)"

definition groq_get_company_overview ::
  "('f \<Rightarrow> string) \<Rightarrow> globals \<Rightarrow> string \<Rightarrow> 'f world \<Rightarrow> 'f result" where
  "groq_get_company_overview floatstr g stock w =
     (let url = ''https://api.sectors.app/v1/company/report/'' @ stock @ ''/?sections=overview''
      in groq_retrieve_from_endpoint floatstr g url w)"

text \<open>An omitted \<^verbatim>\<open>top_n\<close> is \<open>None\<close>; the parameter's default is 5.\<close>

definition groq_get_top_companies_by_tx_volume ::
  "('f \<Rightarrow> string) \<Rightarrow> globals \<Rightarrow> string \<Rightarrow> string \<Rightarrow> int option \<Rightarrow> 'f world \<Rightarrow> 'f result" where
  "groq_get_top_companies_by_tx_volume floatstr g start_date end_date top_n_arg w =
     (let top_n = (case top_n_arg of None \<Rightarrow> 5 | Some n \<Rightarrow> n);
          url = ''https://api.sectors.app/v1/most-traded/?start='' @ start_date
                @ ''&end='' @ end_date @ ''&n_stock='' @ str_int top_n
      in groq_retrieve_from_endpoint floatstr g url w)"

definition groq_get_daily_tx ::
  "('f \<Rightarrow> string) \<Rightarrow> globals \<Rightarrow> string \<Rightarrow> string \<Rightarrow> string \<Rightarrow> 'f world \<Rightarrow> 'f result" where
  "groq_get_daily_tx floatstr g stock start_date end_date w =
     (let url = ''https://api.sectors.app/v1/daily/'' @ stock @ ''/?start='' @ start_date
                @ ''&end='' @ end_date
      in groq_retrieve_from_endpoint floatstr g url w)"

section \<open>\<^verbatim>\<open>llama_base.py\<close>\<close>

text \<open>
  The \<^verbatim>\<open>except\<close> clause names \<^verbatim>\<open>RequestException\<close>: any other exception passes through
  it. The calls of the logger do not affect the result and are left out.
\<close>

definition llama_retrieve_from_endpoint :: "globals \<Rightarrow> string \<Rightarrow> 'f world \<Rightarrow> 'f result" where
  "llama_retrieve_from_endpoint g url w =
     (let hdrs = [(''Authorization'', SECTORS_API_KEY g)];
          (got, w') = requests_get url hdrs w;
          tried = (case got of
                     Inl e \<Rightarrow> Inl e
                   | Inr response \<Rightarrow>
                       (case raise_for_status response of
                          Inl e \<Rightarrow> Inl e
                        | Inr _ \<Rightarrow> json_result response))
      in case tried of
           Inr body \<Rightarrow> (Inr body, w')
         | Inl (RequestException msg) \<Rightarrow> (Inr (JObj [(''error'', JStr msg)]), w')
         | Inl e \<Rightarrow> (Inl e, w'))"

definition format_date :: "string \<Rightarrow> 'f world \<Rightarrow> (exn + string) \<times> 'f world" where
  "format_date date w =
     (case strptime date ''%Y-%m-%d'' of
        Inr parsed_date \<Rightarrow> (Inr (strftime parsed_date ''%Y-%m-%d''), w)
      | Inl (ValueError _) \<Rightarrow>
          (case strptime date ''%d/%m/%Y'' of
             Inr parsed_date \<Rightarrow> (Inr (strftime parsed_date ''%Y-%m-%d''), w)
           | Inl (ValueError _) \<Rightarrow>
               (let (today, w') = datetime_today w
                in (Inr (strftime today ''%Y-%m-%d''), w'))
           | Inl e \<Rightarrow> (Inl e, w))
      | Inl e \<Rightarrow> (Inl e, w))"

definition llama_get_company_overview :: "globals \<Rightarrow> string \<Rightarrow> 'f world \<Rightarrow> 'f result" where
  "llama_get_company_overview g stock w =
     (let url = ''https://api.sectors.app/v1/company/report/'' @ stock @ ''/?sections=overview''
      in llama_retrieve_from_endpoint g url w)"

definition llama_get_top_companies_by_tx_volume ::
  "globals \<Rightarrow> string \<Rightarrow> string \<Rightarrow> int option \<Rightarrow> 'f world \<Rightarrow> 'f result" where
  "llama_get_top_companies_by_tx_volume g start_date end_date top_n_arg w =
     (let top_n = (case top_n_arg of None \<Rightarrow> 5 | Some n \<Rightarrow> n)
      in case format_date start_date w of
           (Inl e, w1) \<Rightarrow> (Inl e, w1)
         | (Inr start_date', w1) \<Rightarrow>
             (case format_date end_date w1 of
                (Inl e, w2) \<Rightarrow> (Inl e, w2)
              | (Inr end_date', w2) \<Rightarrow>
                  (let url = ''https://api.sectors.app/v1/most-traded/?start='' @ start_date'
                             @ ''&end='' @ end_date' @ ''&n_stock='' @ str_int top_n
                   in llama_retrieve_from_endpoint g url w2)))"

definition llama_get_daily_tx ::
  "globals \<Rightarrow> string \<Rightarrow> string \<Rightarrow> string \<Rightarrow> 'f world \<Rightarrow> 'f result" where
  "llama_get_daily_tx g stock start_date end_date w =
     (case format_date start_date w of
        (Inl e, w1) \<Rightarrow> (Inl e, w1)
      | (Inr start_date', w1) \<Rightarrow>
          (case format_date end_date w1 of
             (Inl e, w2) \<Rightarrow> (Inl e, w2)
           | (Inr end_date', w2) \<Rightarrow>
               (let url = ''https://api.sectors.app/v1/daily/'' @ stock @ ''/?start=''
                          @ start_date' @ ''&end='' @ end_date'
                in llama_retrieve_from_endpoint g url w2)))"

section \<open>Tool objects and the namespace of \<^verbatim>\<open>groq_base.py\<close>\<close>

text \<open>
  The decorator \<^verbatim>\<open>@tool\<close> turns a function into a tool object that carries the function's
  name, its docstring and the function itself. The three signatures of the source are
  kept apart by the constructors of \<open>tool_fn\<close>; how the framework converts the arguments
  it is given before it calls the function is not modelled.
\<close>

datatype 'f tool_fn =
    Fn_stock "string \<Rightarrow> 'f world \<Rightarrow> 'f result"
  | Fn_dates_top_n "string \<Rightarrow> string \<Rightarrow> int option \<Rightarrow> 'f world \<Rightarrow> 'f result"
  | Fn_stock_dates "string \<Rightarrow> string \<Rightarrow> string \<Rightarrow> 'f world \<Rightarrow> 'f result"

record 'f tool =
  tool_name :: string
  tool_description :: string
  tool_func :: "'f tool_fn"

definition tool :: "string \<Rightarrow> string \<Rightarrow> 'f tool_fn \<Rightarrow> 'f tool" where
  "tool n doc f = \<lparr>tool_name = n, tool_description = doc, tool_func = f\<rparr>"

text \<open>
  Loading the module runs its statements from top to bottom. A decorated \<^verbatim>\<open>def\<close> binds
  the function's name to the tool object in the module namespace, replacing what the
  name was bound to before. The four decorated definitions, in source order:
\<close>

definition groq_tool_line22 :: "('f \<Rightarrow> string) \<Rightarrow> globals \<Rightarrow> 'f tool" where
  "groq_tool_line22 floatstr g =
     tool ''get_company_overview''
       ''Retrieve QCC themes, associated teams, and their respective periods''
       (Fn_stock (groq_get_company_overview_line23 floatstr g))"

definition groq_tool_line28 :: "('f \<Rightarrow> string) \<Rightarrow> globals \<Rightarrow> 'f tool" where
  "groq_tool_line28 floatstr g =
     tool ''get_company_overview'' ''Get company overview''
       (Fn_stock (groq_get_company_overview floatstr g))"

definition groq_tool_line34 :: "('f \<Rightarrow> string) \<Rightarrow> globals \<Rightarrow> 'f tool" where
  "groq_tool_line34 floatstr g =
     tool ''get_top_companies_by_tx_volume'' ''Get top companies by transaction volume''
       (Fn_dates_top_n (groq_get_top_companies_by_tx_volume floatstr g))"

definition groq_tool_line40 :: "('f \<Rightarrow> string) \<Rightarrow> globals \<Rightarrow> 'f tool" where
  "groq_tool_line40 floatstr g =
     tool ''get_daily_tx'' ''Get daily transaction for a stock''
       (Fn_stock_dates (groq_get_daily_tx floatstr g))"

type_synonym 'f namespace = "string \<rightharpoonup> 'f tool"

definition bind_def :: "'f tool \<Rightarrow> 'f namespace \<Rightarrow> 'f namespace" where
  "bind_def t ns = ns(tool_name t \<mapsto> t)"

definition groq_namespace :: "('f \<Rightarrow> string) \<Rightarrow> globals \<Rightarrow> 'f namespace" where
  "groq_namespace floatstr g =
     fold bind_def
       [groq_tool_line22 floatstr g, groq_tool_line28 floatstr g,
        groq_tool_line34 floatstr g, groq_tool_line40 floatstr g]
       Map.empty"

text \<open>
  The list display \<^verbatim>\<open>tools = [get_company_overview, ...]\<close> looks its names up in the
  namespace, from left to right; an unbound name raises \<^verbatim>\<open>NameError\<close>.
\<close>

fun load_names :: "'f namespace \<Rightarrow> string list \<Rightarrow> exn + 'f tool list" where
  "load_names ns [] = Inr []"
| "load_names ns (n # rest) =
     (case ns n of
        None \<Rightarrow> Inl (NameError n)
      | Some t \<Rightarrow> (case load_names ns rest of Inl e \<Rightarrow> Inl e | Inr ts \<Rightarrow> Inr (t # ts)))"

definition groq_tools :: "('f \<Rightarrow> string) \<Rightarrow> globals \<Rightarrow> exn + 'f tool list" where
  "groq_tools floatstr g =
     load_names (groq_namespace floatstr g)
       [''get_company_overview'', ''get_top_companies_by_tx_volume'', ''get_daily_tx'']"

section \<open>Auxiliary notions for the properties\<close>

text \<open>The shape \<^verbatim>\<open>YYYY-MM-DD\<close>: four digits, a hyphen, two digits, a hyphen, two digits.\<close>

definition is_YYYY_MM_DD :: "string \<Rightarrow> bool" where
  "is_YYYY_MM_DD s \<longleftrightarrow>
     length s = 10 \<and> list_all is_digit (take 4 s) \<and> s ! 4 = CHR ''-'' \<and>
     list_all is_digit (take 2 (drop 5 s)) \<and> s ! 7 = CHR ''-'' \<and> list_all is_digit (drop 8 s)"

text \<open>
  The decimal text of a year from 1000 to 9999 (four digits) and of a month or day on two
  digits.
\<close>

definition year_text :: "nat \<Rightarrow> string" where
  "year_text y = [digit_char (y div 1000), digit_char (y div 100), digit_char (y div 10), digit_char y]"

definition two_text :: "nat \<Rightarrow> string" where
  "two_text n = [digit_char (n div 10), digit_char n]"

text \<open>
  Concrete worlds on which the properties are evaluated: a server that answers every
  request with 200 and a JSON object, one that answers 404, one that answers 300 with a
  JSON body, one that answers 204 with an empty body (which \<^verbatim>\<open>response.json()\<close> cannot
  decode), and an unreachable network. The clock shows 9 March 2025.
\<close>

definition example_floatstr :: "unit \<Rightarrow> string" where
  "example_floatstr = (\<lambda>_. ''0.0'')"

definition example_globals :: globals where
  "example_globals = \<lparr>SECTORS_API_KEY = Some ''secret'', URL_API = Some ''http://localhost:8000''\<rparr>"

definition example_clock :: "nat \<Rightarrow> date" where
  "example_clock = (\<lambda>_. \<lparr>year = 2025, month = 3, day = 9\<rparr>)"

definition example_response :: "unit response" where
  "example_response =
     \<lparr>status_code = 200, reason = ''OK'', resp_url = ''https://api.sectors.app/'',
      json_result = Inr (JObj [(''symbol'', JStr ''BBCA''), (''volume'', JInt 5)])\<rparr>"

definition example_world :: "unit world" where
  "example_world =
     \<lparr>network = (\<lambda>_ _. Inr example_response), requested = [],
      clock = example_clock, clock_reads = 0\<rparr>"

definition response_404 :: "unit response" where
  "response_404 =
     \<lparr>status_code = 404, reason = ''Not Found'', resp_url = ''https://api.sectors.app/'',
      json_result = Inr (JObj [(''detail'', JStr ''Not found.'')])\<rparr>"

definition world_404 :: "unit world" where
  "world_404 =
     \<lparr>network = (\<lambda>_ _. Inr response_404), requested = [],
      clock = example_clock, clock_reads = 0\<rparr>"

definition response_300 :: "unit response" where
  "response_300 =
     \<lparr>status_code = 300, reason = ''Multiple Choices'', resp_url = ''https://api.sectors.app/'',
      json_result = Inr (JObj [])\<rparr>"

definition world_300 :: "unit world" where
  "world_300 =
     \<lparr>network = (\<lambda>_ _. Inr response_300), requested = [],
      clock = example_clock, clock_reads = 0\<rparr>"

definition response_204 :: "unit response" where
  "response_204 =
     \<lparr>status_code = 204, reason = ''No Content'', resp_url = ''https://api.sectors.app/'',
      json_result = Inl (RequestException ''Expecting value: line 1 column 1 (char 0)'')\<rparr>"

definition world_204 :: "unit world" where
  "world_204 =
     \<lparr>network = (\<lambda>_ _. Inr response_204), requested = [],
      clock = example_clock, clock_reads = 0\<rparr>"

definition world_offline :: "unit world" where
  "world_offline =
     \<lparr>network = (\<lambda>_ _. Inl (RequestException ''Connection refused'')), requested = [],
      clock = example_clock, clock_reads = 0\<rparr>"

definition example_url :: string where
  "example_url = ''https://api.sectors.app/v1/company/report/BBCA/?sections=overview''"

text \<open>
  The text \<^verbatim>\<open>{"symbol": "BBCA", "volume": 5}\<close>, the serialization of the body of
  \<open>example_response\<close>.
\<close>

definition example_body_text :: string where
  "example_body_text =
     ''{'' @ [CHR 0x22] @ ''symbol'' @ [CHR 0x22] @ '': '' @ [CHR 0x22] @ ''BBCA'' @ [CHR 0x22]
     @ '', '' @ [CHR 0x22] @ ''volume'' @ [CHR 0x22] @ '': 5}''"

section \<open>Decimal numerals\<close>

declare str_nat.simps [simp del]

lemma digit_char_simps:
  "is_digit (digit_char k)" "digit_val (digit_char k) = k mod 10"
  "digit_char k \<noteq> CHR '' ''" "digit_char k \<noteq> CHR ''-''" "digit_char k \<noteq> CHR ''/''"
proof -
  have b: "k mod 10 < 10" by simp
  have o: "(of_char (digit_char k) :: nat) = 48 + k mod 10"
    using b by (simp add: digit_char_def)
  show "is_digit (digit_char k)" using b by (simp add: is_digit_def o)
  show "digit_val (digit_char k) = k mod 10" by (simp add: digit_val_def o)
  have "(of_char (digit_char k) :: nat) \<noteq> of_char CHR '' ''" by (simp add: o)
  then show "digit_char k \<noteq> CHR '' ''" by (simp only: of_char_eq_iff) simp
  have "(of_char (digit_char k) :: nat) \<noteq> of_char CHR ''-''" by (simp add: o)
  then show "digit_char k \<noteq> CHR ''-''" by (simp only: of_char_eq_iff) simp
  have "(of_char (digit_char k) :: nat) \<noteq> of_char CHR ''/''" by (simp add: o)
  then show "digit_char k \<noteq> CHR ''/''" by (simp only: of_char_eq_iff) simp
qed

lemma rep: "replicate 1 c = [c]" "replicate 2 c = [c, c]" "replicate 3 c = [c, c, c]"
  by (simp_all add: numeral_2_eq_2 numeral_3_eq_3)

lemma dc0: "digit_char 0 = CHR ''0''" by code_simp

lemma zfill2:
  assumes "n < 100"
  shows "zfill 2 (str_nat n) = [digit_char (n div 10), digit_char n]"
proof -
  have "n div 10 < 10" using assms by simp
  then show ?thesis
    by (cases "n < 10")
      (simp_all add: zfill_def str_nat.simps [of n] str_nat.simps [of "n div 10"] dc0 rep)
qed


lemma str_nat_year:
  assumes "1000 \<le> n" "n < 10000"
  shows "str_nat n =
     [digit_char (n div 1000), digit_char (n div 100), digit_char (n div 10), digit_char n]"
proof -
  have d: "n div 10 div 10 = n div 100" "n div 100 div 10 = n div 1000"
    by (simp_all add: div_mult2_eq [symmetric])
  have s1: "str_nat n = (if n < 10 then [digit_char n] else str_nat (n div 10) @ [digit_char n])"
    by (rule str_nat.simps)
  have c: "n div 10 < 10 \<longleftrightarrow> n < 100" "n div 100 < 10 \<longleftrightarrow> n < 1000"
    "n div 1000 < 10"
    using assms by auto
  have s2: "str_nat (n div 10) =
      (if n < 100 then [digit_char (n div 10)] else str_nat (n div 100) @ [digit_char (n div 10)])"
    using str_nat.simps [of "n div 10"] by (simp only: d c)
  have s3: "str_nat (n div 100) =
      (if n < 1000 then [digit_char (n div 100)] else str_nat (n div 1000) @ [digit_char (n div 100)])"
    using str_nat.simps [of "n div 10 div 10"] by (simp only: d c)
  have s4: "str_nat (n div 1000) = [digit_char (n div 1000)]"
    using str_nat.simps [of "n div 1000"] by (simp only: c if_True)
  from assms show ?thesis by (simp add: s1 s2 s3 s4)
qed

lemma py_int_digits:
  assumes "list_all is_digit t" "t \<noteq> []"
  shows "py_int t = Inr (foldl (\<lambda>acc c. 10 * acc + digit_val c) 0 t)"
proof -
  have ns: "\<And>c. is_digit c \<Longrightarrow> c \<noteq> CHR '' ''"
    by (auto simp: is_digit_def)
  have h: "hd t \<noteq> CHR '' ''" "last t \<noteq> CHR '' ''"
    using assms ns by (cases t; simp add: list_all_iff)+
  have 1: "dropWhile (\<lambda>c. c = CHR '' '') t = t"
    using h assms(2) by (cases t) simp_all
  have 2: "dropWhile (\<lambda>c. c = CHR '' '') (rev t) = rev t"
    using h assms(2) by (cases "rev t") (simp_all add: last_rev [symmetric] hd_rev)
  show ?thesis using assms by (simp add: py_int_def 1 2)
qed

lemma decimal2:
  assumes "(n::nat) < 100"
  shows "10 * (n div 10 mod 10) + n mod 10 = n"
proof -
  have "n div 10 < 10" using assms by simp
  then have "n div 10 mod 10 = n div 10" by simp
  then show ?thesis by simp
qed

lemma decimal4:
  assumes "(n::nat) < 10000"
  shows "10 * (10 * (10 * (n div 1000 mod 10) + n div 100 mod 10) + n div 10 mod 10) + n mod 10 = n"
proof -
  have a: "n div 100 = n div 10 div 10" "n div 1000 = n div 10 div 10 div 10"
    by (simp_all add: div_mult2_eq [symmetric])
  have "n div 10 < 1000" using assms by simp
  then have "n div 10 div 10 < 100" by simp
  then have "n div 10 div 10 div 10 < 10" by simp
  then have b: "n div 10 div 10 div 10 mod 10 = n div 10 div 10 div 10" by simp
  have c: "10 * (n div 10 div 10 div 10) + n div 10 div 10 mod 10 = n div 10 div 10"
    by simp
  have d: "10 * (n div 10 div 10) + n div 10 mod 10 = n div 10"
    by simp
  show ?thesis
    by (simp only: a b c d) simp
qed

lemma py_int2: 
  assumes "n < 100"
  shows "py_int [digit_char (n div 10), digit_char n] = Inr n"
  using decimal2 [OF assms] by (simp add: py_int_digits digit_char_simps)

lemma py_int4:
  assumes "n < 10000"
  shows "py_int [digit_char (n div 1000), digit_char (n div 100), digit_char (n div 10), digit_char n] = Inr n"
proof -
  have "n div 1000 < 10" using assms by simp
  then have "n div 1000 mod 10 = n div 1000" by simp
  with decimal4 [OF assms] show ?thesis
    by (simp add: py_int_digits digit_char_simps)
qed


section \<open>The regular-expression groups on decimal text\<close>

lemma of_char_digit_char: "(of_char (digit_char k) :: nat) = 48 + k mod 10"
proof -
  have "k mod 10 < 10" by simp
  then show ?thesis by (simp add: digit_char_def)
qed

lemma digit_char_eq_iff:
  "digit_char k = CHR ''0'' \<longleftrightarrow> k mod 10 = 0"
  "digit_char k = CHR ''1'' \<longleftrightarrow> k mod 10 = 1"
  "digit_char k = CHR ''3'' \<longleftrightarrow> k mod 10 = 3"
proof -
  have "digit_char k = CHR ''0'' \<longleftrightarrow> (of_char (digit_char k) :: nat) = of_char CHR ''0''"
    by (simp only: of_char_eq_iff)
  then show "digit_char k = CHR ''0'' \<longleftrightarrow> k mod 10 = 0"
    by (simp add: of_char_digit_char)
  have "digit_char k = CHR ''1'' \<longleftrightarrow> (of_char (digit_char k) :: nat) = of_char CHR ''1''"
    by (simp only: of_char_eq_iff)
  then show "digit_char k = CHR ''1'' \<longleftrightarrow> k mod 10 = 1"
    by (simp add: of_char_digit_char)
  have "digit_char k = CHR ''3'' \<longleftrightarrow> (of_char (digit_char k) :: nat) = of_char CHR ''3''"
    by (simp only: of_char_eq_iff)
  then show "digit_char k = CHR ''3'' \<longleftrightarrow> k mod 10 = 3"
    by (simp add: of_char_digit_char)
qed

lemma in_range_digit_char:
  "in_range CHR ''0'' CHR ''1'' (digit_char k) \<longleftrightarrow> k mod 10 \<le> 1"
  "in_range CHR ''0'' CHR ''2'' (digit_char k) \<longleftrightarrow> k mod 10 \<le> 2"
  "in_range CHR ''1'' CHR ''2'' (digit_char k) \<longleftrightarrow> 1 \<le> k mod 10 \<and> k mod 10 \<le> 2"
  "in_range CHR ''1'' CHR ''9'' (digit_char k) \<longleftrightarrow> 1 \<le> k mod 10"
proof -
  have "k mod 10 < 10" by simp
  then show "in_range CHR ''1'' CHR ''9'' (digit_char k) \<longleftrightarrow> 1 \<le> k mod 10"
    by (simp add: in_range_def of_char_digit_char) linarith
qed (simp_all add: in_range_def of_char_digit_char, linarith?)

lemma alternatives_Y:
  "alternatives CHR ''Y'' (digit_char a # digit_char b # digit_char c # digit_char d # r) =
     [([digit_char a, digit_char b, digit_char c, digit_char d], r)]"
  by (simp add: alternatives_def digit_char_simps)

lemma alternatives_m:
  assumes "1 \<le> m" "m \<le> 12"
  shows "alternatives CHR ''m'' (digit_char (m div 10) # digit_char m # r) =
           ([digit_char (m div 10), digit_char m], r)
           # (if m < 10 then [] else [([digit_char (m div 10)], digit_char m # r)])"
proof (cases "m < 10")
  case True
  with assms have "m div 10 = 0" "m mod 10 = m" by simp_all
  with True assms show ?thesis
    by (simp add: alternatives_def alt2_def alt1_def digit_char_eq_iff in_range_digit_char
        digit_char_simps)
next
  case False
  with assms have "m div 10 = 1" "m mod 10 \<le> 2" by arith+
  with False assms show ?thesis
    by (simp add: alternatives_def alt2_def alt1_def digit_char_eq_iff in_range_digit_char
        digit_char_simps)
qed

lemma alternatives_d:
  assumes "1 \<le> d" "d \<le> 31"
  shows "alternatives CHR ''d'' (digit_char (d div 10) # digit_char d # r) =
           ([digit_char (d div 10), digit_char d], r)
           # (if d < 10 then [] else [([digit_char (d div 10)], digit_char d # r)])"
proof -
  consider "d < 10" | "10 \<le> d" "d < 20" | "20 \<le> d" "d < 30" | "30 \<le> d"
    by linarith
  then show ?thesis
  proof cases
    case 1
    with assms have "d div 10 = 0" "d mod 10 = d" by simp_all
    with 1 assms show ?thesis
      by (simp add: alternatives_def alt2_def alt1_def digit_char_eq_iff in_range_digit_char
          digit_char_simps)
  next
    case 2
    then have "d div 10 = 1" by arith
    with 2 assms show ?thesis
      by (simp add: alternatives_def alt2_def alt1_def digit_char_eq_iff in_range_digit_char
          digit_char_simps)
  next
    case 3
    then have "d div 10 = 2" by arith
    with 3 assms show ?thesis
      by (simp add: alternatives_def alt2_def alt1_def digit_char_eq_iff in_range_digit_char
          digit_char_simps)
  next
    case 4
    with assms have "d div 10 = 3" "d mod 10 \<le> 1" by arith+
    with 4 assms show ?thesis
      by (simp add: alternatives_def alt2_def alt1_def digit_char_eq_iff in_range_digit_char
          digit_char_simps)
  qed
qed


section \<open>Printing a calendar date and parsing it back\<close>

lemma tokens_formats:
  "tokens ''%Y-%m-%d'' =
     [Directive CHR ''Y'', Literal CHR ''-'', Directive CHR ''m'', Literal CHR ''-'',
      Directive CHR ''d'']"
  "tokens ''%d/%m/%Y'' =
     [Directive CHR ''d'', Literal CHR ''/'', Directive CHR ''m'', Literal CHR ''/'',
      Directive CHR ''Y'']"
  by simp_all

lemma strftime_iso:
  assumes "valid_date dt" "1000 \<le> year dt"
  shows "strftime dt ''%Y-%m-%d'' =
           year_text (year dt) @ CHR ''-'' # two_text (month dt) @ CHR ''-'' # two_text (day dt)"
proof -
  have "year dt < 10000" "month dt < 100" "day dt < 100"
    using assms by (auto simp: valid_date_def MAXYEAR_def days_in_month_def split: if_splits)
  then show ?thesis
    using assms(2)
    by (simp add: strftime_def tokens_formats zfill2 str_nat_year year_text_def two_text_def)
qed

lemma strftime_dmy:
  assumes "valid_date dt" "1000 \<le> year dt"
  shows "strftime dt ''%d/%m/%Y'' =
           two_text (day dt) @ CHR ''/'' # two_text (month dt) @ CHR ''/'' # year_text (year dt)"
proof -
  have "year dt < 10000" "month dt < 100" "day dt < 100"
    using assms by (auto simp: valid_date_def MAXYEAR_def days_in_month_def split: if_splits)
  then show ?thesis
    using assms(2)
    by (simp add: strftime_def tokens_formats zfill2 str_nat_year year_text_def two_text_def)
qed

declare re_match.simps(3) [simp del]

lemma re_match_Y:
  "re_match (Directive CHR ''Y'' # ts) (year_text y @ r) =
     map (\<lambda>(caps, r'). ((CHR ''Y'', year_text y) # caps, r')) (re_match ts r)"
  by (simp add: re_match.simps(3) year_text_def alternatives_Y)

lemma re_match_m_sep:
  assumes "1 \<le> m" "m \<le> 12" "c = CHR ''-'' \<or> c = CHR ''/''"
  shows "re_match (Directive CHR ''m'' # Literal c # ts) (two_text m @ c # r) =
     map (\<lambda>(caps, r'). ((CHR ''m'', two_text m) # caps, r')) (re_match ts r)"
  using assms(3) by (auto simp add: re_match.simps(3) two_text_def alternatives_m [OF assms(1,2)] digit_char_simps)

lemma re_match_d_sep:
  assumes "1 \<le> d" "d \<le> 31" "c = CHR ''-'' \<or> c = CHR ''/''"
  shows "re_match (Directive CHR ''d'' # Literal c # ts) (two_text d @ c # r) =
     map (\<lambda>(caps, r'). ((CHR ''d'', two_text d) # caps, r')) (re_match ts r)"
  using assms(3) by (auto simp add: re_match.simps(3) two_text_def alternatives_d [OF assms(1,2)] digit_char_simps)

lemma re_match_d_end:
  assumes "1 \<le> d" "d \<le> 31"
  shows "\<exists>more. re_match [Directive CHR ''d''] (two_text d) = ([(CHR ''d'', two_text d)], []) # more"
  by (simp add: re_match.simps(3) two_text_def alternatives_d [OF assms])

lemma valid_date_bounds:
  assumes "valid_date dt"
  shows "1 \<le> year dt" "year dt < 10000" "1 \<le> month dt" "month dt \<le> 12" "1 \<le> day dt" "day dt \<le> 31"
    "month dt < 100" "day dt < 100"
  using assms by (auto simp: valid_date_def MINYEAR_def MAXYEAR_def days_in_month_def split: if_splits)

lemma known_formats:
  "\<not> (\<exists>t \<in> set (tokens ''%Y-%m-%d''). (case t of Directive c \<Rightarrow> \<not> known_directive c | Literal _ \<Rightarrow> False))"
  "\<not> (\<exists>t \<in> set (tokens ''%d/%m/%Y''). (case t of Directive c \<Rightarrow> \<not> known_directive c | Literal _ \<Rightarrow> False))"
  by (simp_all add: tokens_formats known_directive_def)

lemma group_ints:
  "year dt < 10000 \<Longrightarrow> py_int (year_text (year dt)) = Inr (year dt)"
  "n < 100 \<Longrightarrow> py_int (two_text n) = Inr n"
  by (simp_all add: year_text_def two_text_def py_int2 py_int4)

lemma datetime_new_valid: "valid_date dt \<Longrightarrow> datetime_new (year dt) (month dt) (day dt) = Inr dt"
  by (simp add: datetime_new_def valid_date_def)

lemma strptime_iso_roundtrip:
  assumes "valid_date dt" "1000 \<le> year dt"
  shows "strptime (strftime dt ''%Y-%m-%d'') ''%Y-%m-%d'' = Inr dt"
proof -
  note b = valid_date_bounds [OF assms(1)]
  obtain more where m: "re_match [Directive CHR ''d''] (two_text (day dt))
      = ([(CHR ''d'', two_text (day dt))], []) # more"
    using re_match_d_end [OF b(5,6)] by blast
  have "\<exists>more'. re_match (tokens ''%Y-%m-%d'') (strftime dt ''%Y-%m-%d'') =
      ([(CHR ''Y'', year_text (year dt)), (CHR ''m'', two_text (month dt)),
        (CHR ''d'', two_text (day dt))], []) # more'"
    by (simp add: strftime_iso [OF assms] tokens_formats re_match_Y
        re_match_m_sep [OF b(3,4)] m)
  then obtain more' where "re_match (tokens ''%Y-%m-%d'') (strftime dt ''%Y-%m-%d'') =
      ([(CHR ''Y'', year_text (year dt)), (CHR ''m'', two_text (month dt)),
        (CHR ''d'', two_text (day dt))], []) # more'" ..
  then show ?thesis
    using known_formats(1)
    by (simp add: strptime_def Let_def group_int_def group_ints b datetime_new_valid [OF assms(1)])
qed


lemma re_match_Y_end:
  "re_match [Directive CHR ''Y''] (year_text y) = [([(CHR ''Y'', year_text y)], [])]"
  using re_match_Y [of "[]" y "[]"] by simp

lemma strptime_dmy_roundtrip:
  assumes "valid_date dt" "1000 \<le> year dt"
  shows "strptime (strftime dt ''%d/%m/%Y'') ''%d/%m/%Y'' = Inr dt"
proof -
  note b = valid_date_bounds [OF assms(1)]
  have "re_match (tokens ''%d/%m/%Y'') (strftime dt ''%d/%m/%Y'') =
      [([(CHR ''d'', two_text (day dt)), (CHR ''m'', two_text (month dt)),
         (CHR ''Y'', year_text (year dt))], [])]"
    by (simp add: strftime_dmy [OF assms] tokens_formats re_match_Y_end
        re_match_m_sep [OF b(3,4)] re_match_d_sep [OF b(5,6)])
  then show ?thesis
    using known_formats(2)
    by (simp add: strptime_def Let_def group_int_def group_ints b datetime_new_valid [OF assms(1)])
qed

lemma strptime_dmy_not_iso:
  assumes "valid_date dt" "1000 \<le> year dt"
  shows "strptime (strftime dt ''%d/%m/%Y'') ''%Y-%m-%d'' =
           Inl (ValueError ''time data does not match format'')"
proof -
  have "\<not> is_digit CHR ''/''" by (simp add: is_digit_def)
  then have "re_match (tokens ''%Y-%m-%d'') (strftime dt ''%d/%m/%Y'') = []"
    by (simp add: strftime_dmy [OF assms] tokens_formats re_match.simps(3) two_text_def
        alternatives_def)
  then show ?thesis
    using known_formats(1) by (simp add: strptime_def Let_def)
qed

section \<open>What \<^verbatim>\<open>strptime\<close> raises and returns\<close>

lemma py_int_raises: "py_int t = Inl e \<Longrightarrow> \<exists>msg. e = ValueError msg"
  by (auto simp: py_int_def Let_def split: if_splits)

lemma group_int_raises: "group_int caps c dflt = Inl e \<Longrightarrow> \<exists>msg. e = ValueError msg"
  by (auto simp: group_int_def dest: py_int_raises split: option.splits)

lemma datetime_new_raises: "datetime_new y m d = Inl e \<Longrightarrow> \<exists>msg. e = ValueError msg"
  by (auto simp: datetime_new_def split: if_splits)

lemma datetime_new_Inr: "datetime_new y m d = Inr dt \<Longrightarrow> valid_date dt"
  by (auto simp: datetime_new_def valid_date_def split: if_splits)

lemma strptime_raises: "strptime s format = Inl e \<Longrightarrow> \<exists>msg. e = ValueError msg"
  unfolding strptime_def Let_def
  by (auto split: if_splits list.splits sum.splits prod.splits
      dest: group_int_raises datetime_new_raises)

lemma strptime_Inr: "strptime s format = Inr dt \<Longrightarrow> valid_date dt"
  unfolding strptime_def Let_def
  by (auto split: if_splits list.splits sum.splits prod.splits dest: datetime_new_Inr)


lemma format_date_iso:
  "strptime s ''%Y-%m-%d'' = Inr dt \<Longrightarrow> format_date s w = (Inr (strftime dt ''%Y-%m-%d''), w)"
  by (simp add: format_date_def)

lemma format_date_dmy:
  assumes "strptime s ''%Y-%m-%d'' = Inl e" "strptime s ''%d/%m/%Y'' = Inr dt"
  shows "format_date s w = (Inr (strftime dt ''%Y-%m-%d''), w)"
proof -
  obtain msg where "e = ValueError msg" using strptime_raises [OF assms(1)] by blast
  with assms show ?thesis by (simp add: format_date_def)
qed

lemma format_date_today:
  assumes "strptime s ''%Y-%m-%d'' = Inl e" "strptime s ''%d/%m/%Y'' = Inl e'"
  shows "format_date s w =
     (Inr (strftime (clock w (clock_reads w)) ''%Y-%m-%d''), w\<lparr>clock_reads := Suc (clock_reads w)\<rparr>)"
proof -
  obtain msg where "e = ValueError msg" using strptime_raises [OF assms(1)] by blast
  moreover obtain msg' where "e' = ValueError msg'" using strptime_raises [OF assms(2)] by blast
  ultimately show ?thesis using assms by (simp add: format_date_def datetime_today_def)
qed

lemma format_date_cases:
  obtains (iso) dt where "strptime s ''%Y-%m-%d'' = Inr dt"
      "format_date s w = (Inr (strftime dt ''%Y-%m-%d''), w)" "valid_date dt"
  | (dmy) e dt where "strptime s ''%Y-%m-%d'' = Inl e" "strptime s ''%d/%m/%Y'' = Inr dt"
      "format_date s w = (Inr (strftime dt ''%Y-%m-%d''), w)" "valid_date dt"
  | (today) e e' where "strptime s ''%Y-%m-%d'' = Inl e" "strptime s ''%d/%m/%Y'' = Inl e'"
      "format_date s w = (Inr (strftime (clock w (clock_reads w)) ''%Y-%m-%d''),
                          w\<lparr>clock_reads := Suc (clock_reads w)\<rparr>)"
proof (cases "strptime s ''%Y-%m-%d''")
  case (Inr dt)
  then show ?thesis using iso format_date_iso strptime_Inr by blast
next
  case a: (Inl e)
  show ?thesis
  proof (cases "strptime s ''%d/%m/%Y''")
    case (Inr dt)
    then show ?thesis using a dmy format_date_dmy strptime_Inr by blast
  next
    case (Inl e')
    then show ?thesis using a today format_date_today by blast
  qed
qed

lemma is_YYYY_MM_DD_strftime:
  "valid_date dt \<Longrightarrow> 1000 \<le> year dt \<Longrightarrow> is_YYYY_MM_DD (strftime dt ''%Y-%m-%d'')"
  by (simp add: strftime_iso is_YYYY_MM_DD_def year_text_def two_text_def digit_char_simps)

section \<open>The result of \<^verbatim>\<open>format_date\<close>\<close>

lemma format_date_Inr:
  "\<exists>r. format_date s w = (Inr r, w\<lparr>clock_reads := clock_reads (snd (format_date s w))\<rparr>)"
  by (cases rule: format_date_cases [of s w]) simp_all

lemma format_date_requested: "requested (snd (format_date s w)) = requested w"
  by (cases rule: format_date_cases [of s w]) simp_all

lemma format_date_canonical:
  "valid_date dt \<Longrightarrow> 1000 \<le> year dt \<Longrightarrow>
     format_date (strftime dt ''%Y-%m-%d'') w = (Inr (strftime dt ''%Y-%m-%d''), w)"
  by (simp add: format_date_iso [OF strptime_iso_roundtrip])

section \<open>The result of \<^verbatim>\<open>retrieve_from_endpoint\<close>\<close>

lemma requests_get_simps:
  "fst (requests_get url hdrs w) = network w (requested w) (url, hdrs)"
  "snd (requests_get url hdrs w) = w\<lparr>requested := requested w @ [(url, hdrs)]\<rparr>"
  by (simp_all add: requests_get_def)

lemma groq_retrieve_world:
  "snd (groq_retrieve_from_endpoint floatstr g url w) =
     w\<lparr>requested := requested w @ [(url, [(''Authorization'', SECTORS_API_KEY g)])]\<rparr>"
  by (simp add: groq_retrieve_from_endpoint_def requests_get_def Let_def split: sum.splits)

lemma llama_retrieve_world:
  "snd (llama_retrieve_from_endpoint g url w) =
     w\<lparr>requested := requested w @ [(url, [(''Authorization'', SECTORS_API_KEY g)])]\<rparr>"
  by (simp add: llama_retrieve_from_endpoint_def requests_get_def Let_def split: sum.splits exn.splits)

lemma groq_retrieve_result:
  "fst (groq_retrieve_from_endpoint floatstr g url w) =
     (case network w (requested w) (url, [(''Authorization'', SECTORS_API_KEY g)]) of
        Inl e \<Rightarrow> Inl e
      | Inr r \<Rightarrow> (case raise_for_status r of
           Inl e \<Rightarrow> Inl e
         | Inr _ \<Rightarrow> (case json_result r of
              Inl e \<Rightarrow> Inl e
            | Inr body \<Rightarrow> Inr (JStr (json_dumps floatstr body)))))"
  by (simp add: groq_retrieve_from_endpoint_def requests_get_def Let_def split: sum.splits)

lemma llama_retrieve_result:
  "fst (llama_retrieve_from_endpoint g url w) =
     (case (case network w (requested w) (url, [(''Authorization'', SECTORS_API_KEY g)]) of
              Inl e \<Rightarrow> Inl e
            | Inr r \<Rightarrow> (case raise_for_status r of Inl e \<Rightarrow> Inl e | Inr _ \<Rightarrow> json_result r)) of
        Inr body \<Rightarrow> Inr body
      | Inl (RequestException msg) \<Rightarrow> Inr (JObj [(''error'', JStr msg)])
      | Inl e \<Rightarrow> Inl e)"
  by (simp add: llama_retrieve_from_endpoint_def requests_get_def Let_def split: sum.splits exn.splits)

lemma raise_for_status_error:
  assumes "400 \<le> status_code r" "status_code r < 600"
  shows "\<exists>msg. raise_for_status r = Inl (RequestException msg)"
  using assms by (simp add: raise_for_status_def)

lemma raise_for_status_ok:
  assumes "status_code r < 400 \<or> 600 \<le> status_code r"
  shows "raise_for_status r = Inr ()"
  using assms by (auto simp add: raise_for_status_def)

lemma groq_retrieve_Inr:
  assumes "fst (groq_retrieve_from_endpoint floatstr g url w) = Inr v"
  shows "\<exists>r body. network w (requested w) (url, [(''Authorization'', SECTORS_API_KEY g)]) = Inr r
           \<and> json_result r = Inr body \<and> v = JStr (json_dumps floatstr body)"
  using assms by (auto simp add: groq_retrieve_result split: sum.splits)

lemma llama_get_daily_tx_requested:
  assumes "format_date start_date w = (Inr start', w1)" "format_date end_date w1 = (Inr end', w2)"
  shows "requested (snd (llama_get_daily_tx g stock start_date end_date w)) =
           requested w @ [(''https://api.sectors.app'' @ ''/v1/daily/'' @ stock @ ''/?start='' @ start'
                             @ ''&end='' @ end',
                           [(''Authorization'', SECTORS_API_KEY g)])]"
proof -
  have "requested w2 = requested w"
    using format_date_requested [of end_date w1] format_date_requested [of start_date w] assms
    by simp
  then show ?thesis
    using assms by (simp add: llama_get_daily_tx_def llama_retrieve_world)
qed

section \<open>The namespace after loading \<^verbatim>\<open>groq_base.py\<close>\<close>

lemma groq_tools_distinct:
  "groq_tool_line22 floatstr g \<noteq> groq_tool_line28 floatstr g"
  "groq_tool_line22 floatstr g \<noteq> groq_tool_line34 floatstr g"
  "groq_tool_line22 floatstr g \<noteq> groq_tool_line40 floatstr g"
proof -
  have "tool_description (groq_tool_line22 floatstr g) \<noteq> tool_description (groq_tool_line28 floatstr g)"
    by (simp add: groq_tool_line22_def groq_tool_line28_def tool_def)
  then show "groq_tool_line22 floatstr g \<noteq> groq_tool_line28 floatstr g" by auto
  have "tool_name (groq_tool_line22 floatstr g) \<noteq> tool_name (groq_tool_line34 floatstr g)"
    by (simp add: groq_tool_line22_def groq_tool_line34_def tool_def)
  then show "groq_tool_line22 floatstr g \<noteq> groq_tool_line34 floatstr g" by auto
  have "tool_name (groq_tool_line22 floatstr g) \<noteq> tool_name (groq_tool_line40 floatstr g)"
    by (simp add: groq_tool_line22_def groq_tool_line40_def tool_def)
  then show "groq_tool_line22 floatstr g \<noteq> groq_tool_line40 floatstr g" by auto
qed

lemma groq_tool_names:
  "tool_name (groq_tool_line22 floatstr g) = ''get_company_overview''"
  "tool_name (groq_tool_line28 floatstr g) = ''get_company_overview''"
  "tool_name (groq_tool_line34 floatstr g) = ''get_top_companies_by_tx_volume''"
  "tool_name (groq_tool_line40 floatstr g) = ''get_daily_tx''"
  by (simp_all add: groq_tool_line22_def groq_tool_line28_def groq_tool_line34_def
      groq_tool_line40_def tool_def)

lemma groq_namespace_eq:
  "groq_namespace floatstr g =
     [''get_company_overview'' \<mapsto> groq_tool_line28 floatstr g,
      ''get_top_companies_by_tx_volume'' \<mapsto> groq_tool_line34 floatstr g,
      ''get_daily_tx'' \<mapsto> groq_tool_line40 floatstr g]"
  by (simp add: groq_namespace_def bind_def_def groq_tool_names)

section \<open>Evaluation on the example worlds\<close>

lemma example_world_simps:
  "network example_world h q = Inr example_response" "requested example_world = []"
  "clock example_world n = \<lparr>year = 2025, month = 3, day = 9\<rparr>" "clock_reads example_world = 0"
  "network world_404 h q = Inr response_404" "requested world_404 = []"
  "network world_300 h q = Inr response_300" "requested world_300 = []"
  "network world_offline h q = Inl (RequestException ''Connection refused'')"
  "requested world_offline = []"
  "network world_204 h q = Inr response_204" "requested world_204 = []"
  by (simp_all add: example_world_def world_404_def world_300_def world_offline_def
      world_204_def example_clock_def)

lemma example_response_simps:
  "status_code example_response = 200"
  "json_result example_response = Inr (JObj [(''symbol'', JStr ''BBCA''), (''volume'', JInt 5)])"
  "status_code response_404 = 404" "reason response_404 = ''Not Found''"
  "resp_url response_404 = ''https://api.sectors.app/''"
  "status_code response_300 = 300" "json_result response_300 = Inr (JObj [])"
  "status_code response_204 = 204"
  "json_result response_204 = Inl (RequestException ''Expecting value: line 1 column 1 (char 0)'')"
  by (simp_all add: example_response_def response_404_def response_300_def response_204_def)

lemma raise_for_status_404:
  "raise_for_status response_404 =
     Inl (RequestException ''404 Client Error: Not Found for url: https://api.sectors.app/'')"
proof -
  have "str_nat 404 = ''404''" by code_simp
  then show ?thesis by (simp add: raise_for_status_def example_response_simps)
qed

lemma example_valid_dates:
  "valid_date \<lparr>year = 2025, month = 3, day = 9\<rparr>"
  "valid_date \<lparr>year = 2024, month = 6, day = 1\<rparr>"
  "valid_date \<lparr>year = 2024, month = 6, day = 30\<rparr>"
  by (simp_all add: valid_date_def MINYEAR_def MAXYEAR_def days_in_month_def)

lemma example_strftime:
  "strftime \<lparr>year = 2025, month = 3, day = 9\<rparr> ''%Y-%m-%d'' = ''2025-03-09''"
  "strftime \<lparr>year = 2024, month = 6, day = 1\<rparr> ''%Y-%m-%d'' = ''2024-06-01''"
  "strftime \<lparr>year = 2024, month = 6, day = 30\<rparr> ''%Y-%m-%d'' = ''2024-06-30''"
  by code_simp+

lemma example_unparseable:
  "isl (strptime ''tomorrow'' ''%Y-%m-%d'')" "isl (strptime ''tomorrow'' ''%d/%m/%Y'')"
  by code_simp+

lemma example_dumps:
  "json_dumps example_floatstr (JObj [(''symbol'', JStr ''BBCA''), (''volume'', JInt 5)])
     = example_body_text"
  unfolding example_body_text_def by code_simp

lemma example_format_date:
  "format_date ''2024-06-01'' w = (Inr ''2024-06-01'', w)"
  "format_date ''2024-06-30'' w = (Inr ''2024-06-30'', w)"
proof -
  have y: "1000 \<le> year \<lparr>year = 2024, month = 6, day = 1\<rparr>"
    "1000 \<le> year \<lparr>year = 2024, month = 6, day = 30\<rparr>"
    by simp_all
  from format_date_canonical [OF example_valid_dates(2) y(1), of w]
  show "format_date ''2024-06-01'' w = (Inr ''2024-06-01'', w)"
    unfolding example_strftime .
  from format_date_canonical [OF example_valid_dates(3) y(2), of w]
  show "format_date ''2024-06-30'' w = (Inr ''2024-06-30'', w)"
    unfolding example_strftime .
qed

lemma example_year_below_1000:
  "strptime ''0999-01-01'' ''%Y-%m-%d'' = Inr \<lparr>year = 999, month = 1, day = 1\<rparr>"
  "isl (strptime ''01/01/0999'' ''%Y-%m-%d'')"
  "strptime ''01/01/0999'' ''%d/%m/%Y'' = Inr \<lparr>year = 999, month = 1, day = 1\<rparr>"
  "strftime \<lparr>year = 999, month = 1, day = 1\<rparr> ''%Y-%m-%d'' = ''999-01-01''"
  "strptime ''0001-01-01'' ''%Y-%m-%d'' = Inr \<lparr>year = 1, month = 1, day = 1\<rparr>"
  "strftime \<lparr>year = 1, month = 1, day = 1\<rparr> ''%Y-%m-%d'' = ''1-01-01''"
  "isl (strptime ''999-01-01'' ''%Y-%m-%d'')" "isl (strptime ''999-01-01'' ''%d/%m/%Y'')"
  by code_simp+

section \<open>Properties of the tool layer\<close>

subsection \<open>Error policy of the two variants\<close>

text \<open>
  Claim C1, as amended. When \<^verbatim>\<open>requests.get\<close> fails with a \<^verbatim>\<open>RequestException\<close> (a network
  failure), or answers with a status code from 400 to 599 (the codes for which
  \<^verbatim>\<open>raise_for_status\<close> raises), the groq variant of \<^verbatim>\<open>retrieve_from_endpoint\<close> propagates
  the exception and the llama variant returns the dictionary \<^verbatim>\<open>{"error": str(e)}\<close> without
  raising.
\<close>

theorem retrieve_from_endpoint_error_policy:
  "(network w (requested w) (url, [(''Authorization'', SECTORS_API_KEY g)]) = Inl (RequestException msg)
      \<longrightarrow> fst (groq_retrieve_from_endpoint floatstr g url w) = Inl (RequestException msg)
        \<and> fst (llama_retrieve_from_endpoint g url w) = Inr (JObj [(''error'', JStr msg)]))
   \<and> (network w (requested w) (url, [(''Authorization'', SECTORS_API_KEY g)]) = Inr r
        \<and> 400 \<le> status_code r \<and> status_code r < 600
      \<longrightarrow> (\<exists>msg'. raise_for_status r = Inl (RequestException msg')
            \<and> fst (groq_retrieve_from_endpoint floatstr g url w) = Inl (RequestException msg')
            \<and> fst (llama_retrieve_from_endpoint g url w) = Inr (JObj [(''error'', JStr msg')])))"
proof (intro conjI impI)
  assume "network w (requested w) (url, [(''Authorization'', SECTORS_API_KEY g)]) = Inl (RequestException msg)"
  then show "fst (groq_retrieve_from_endpoint floatstr g url w) = Inl (RequestException msg)"
    and "fst (llama_retrieve_from_endpoint g url w) = Inr (JObj [(''error'', JStr msg)])"
    by (simp_all add: groq_retrieve_result llama_retrieve_result)
next
  assume a: "network w (requested w) (url, [(''Authorization'', SECTORS_API_KEY g)]) = Inr r
        \<and> 400 \<le> status_code r \<and> status_code r < 600"
  then obtain msg' where "raise_for_status r = Inl (RequestException msg')"
    using raise_for_status_error by blast
  with a show "\<exists>msg'. raise_for_status r = Inl (RequestException msg')
            \<and> fst (groq_retrieve_from_endpoint floatstr g url w) = Inl (RequestException msg')
            \<and> fst (llama_retrieve_from_endpoint g url w) = Inr (JObj [(''error'', JStr msg')])"
    by (simp add: groq_retrieve_result llama_retrieve_result)
qed

text \<open>
  Both cases on concrete worlds: an unreachable network, and a server answering 404.
\<close>

theorem retrieve_from_endpoint_error_policy_witness:
  "network world_offline (requested world_offline)
       (example_url, [(''Authorization'', SECTORS_API_KEY example_globals)])
     = Inl (RequestException ''Connection refused'')
   \<and> fst (groq_retrieve_from_endpoint example_floatstr example_globals example_url world_offline)
     = Inl (RequestException ''Connection refused'')
   \<and> fst (llama_retrieve_from_endpoint example_globals example_url world_offline)
     = Inr (JObj [(''error'', JStr ''Connection refused'')])
   \<and> network world_404 (requested world_404)
       (example_url, [(''Authorization'', SECTORS_API_KEY example_globals)])
     = Inr response_404
   \<and> 400 \<le> status_code response_404 \<and> status_code response_404 < 600
   \<and> fst (groq_retrieve_from_endpoint example_floatstr example_globals example_url world_404)
     = Inl (RequestException ''404 Client Error: Not Found for url: https://api.sectors.app/'')
   \<and> fst (llama_retrieve_from_endpoint example_globals example_url world_404)
     = Inr (JObj [(''error'',
          JStr ''404 Client Error: Not Found for url: https://api.sectors.app/'')])"
proof -
  have 1: "network world_offline (requested world_offline)
       (example_url, [(''Authorization'', SECTORS_API_KEY example_globals)])
     = Inl (RequestException ''Connection refused'')"
    by (simp add: example_world_simps)
  have 2: "network world_404 (requested world_404)
       (example_url, [(''Authorization'', SECTORS_API_KEY example_globals)])
     = Inr response_404 \<and> 400 \<le> status_code response_404 \<and> status_code response_404 < 600"
    by (simp add: example_world_simps example_response_simps)
  from retrieve_from_endpoint_error_policy
    [where w = world_offline and url = example_url and g = example_globals
       and msg = "''Connection refused''" and floatstr = example_floatstr and r = response_404]
    1
  have a: "fst (groq_retrieve_from_endpoint example_floatstr example_globals example_url world_offline)
     = Inl (RequestException ''Connection refused'')
   \<and> fst (llama_retrieve_from_endpoint example_globals example_url world_offline)
     = Inr (JObj [(''error'', JStr ''Connection refused'')])"
    by blast
  from retrieve_from_endpoint_error_policy
    [where w = world_404 and url = example_url and g = example_globals
       and msg = "''x''" and floatstr = example_floatstr and r = response_404]
    2
  have "\<exists>msg'. raise_for_status response_404 = Inl (RequestException msg')
            \<and> fst (groq_retrieve_from_endpoint example_floatstr example_globals example_url world_404)
                 = Inl (RequestException msg')
            \<and> fst (llama_retrieve_from_endpoint example_globals example_url world_404)
                 = Inr (JObj [(''error'', JStr msg')])"
    by blast
  then have b: "fst (groq_retrieve_from_endpoint example_floatstr example_globals example_url world_404)
     = Inl (RequestException ''404 Client Error: Not Found for url: https://api.sectors.app/'')
   \<and> fst (llama_retrieve_from_endpoint example_globals example_url world_404)
     = Inr (JObj [(''error'',
          JStr ''404 Client Error: Not Found for url: https://api.sectors.app/'')])"
    by (auto simp add: raise_for_status_404)
  from 1 2 a b show ?thesis by blast
qed

text \<open>
  The claim as first stated speaks of every status outside 200..299. A response with
  status 300 and a JSON body is outside that range, yet \<^verbatim>\<open>raise_for_status\<close> returns
  normally: the groq variant returns the serialized body instead of raising, and the
  llama variant returns the decoded body, which has no key \<^verbatim>\<open>"error"\<close>.
\<close>

theorem non_2xx_status_not_always_an_error:
  "\<not> (200 \<le> status_code response_300 \<and> status_code response_300 < 300)
   \<and> network world_300 (requested world_300)
       (example_url, [(''Authorization'', SECTORS_API_KEY example_globals)])
     = Inr response_300
   \<and> fst (groq_retrieve_from_endpoint example_floatstr example_globals example_url world_300)
     = Inr (JStr ''{}'')
   \<and> fst (llama_retrieve_from_endpoint example_globals example_url world_300)
     = Inr (JObj [])"
proof -
  have "raise_for_status response_300 = Inr ()"
    by (simp add: raise_for_status_def example_response_simps)
  then show ?thesis
    by (simp add: groq_retrieve_result llama_retrieve_result example_world_simps
        example_response_simps)
qed

subsection \<open>Date normalization\<close>

text \<open>
  From the year 1000 on, \<^verbatim>\<open>format_date\<close> returns the \<^verbatim>\<open>YYYY-MM-DD\<close> text of a calendar date
  unchanged and turns its \<^verbatim>\<open>DD/MM/YYYY\<close> text into the \<^verbatim>\<open>YYYY-MM-DD\<close> text of the same date;
  the clock is not read.
\<close>

lemma format_date_recognized_formats_from_1000:
  assumes "valid_date dt" "1000 \<le> year dt"
  shows "format_date (strftime dt ''%Y-%m-%d'') w = (Inr (strftime dt ''%Y-%m-%d''), w)
       \<and> format_date (strftime dt ''%d/%m/%Y'') w = (Inr (strftime dt ''%Y-%m-%d''), w)"
  using assms
  by (simp add: format_date_canonical
      format_date_dmy [OF strptime_dmy_not_iso strptime_dmy_roundtrip])

text \<open>
  Claim C2 fails on the code for years below 1000. The docstring of \<^verbatim>\<open>format_date\<close>
  promises the format \<^verbatim>\<open>YYYY-MM-DD\<close>, but the year is printed without padding: the input
  \<^verbatim>\<open>0999-01-01\<close>, which has the format \<^verbatim>\<open>YYYY-MM-DD\<close>, is not returned unchanged but as
  \<^verbatim>\<open>999-01-01\<close>, and the input \<^verbatim>\<open>01/01/0999\<close> is returned as \<^verbatim>\<open>999-01-01\<close> instead of
  \<^verbatim>\<open>0999-01-01\<close>.
\<close>

theorem format_date_year_below_1000_not_padded:
  "format_date ''0999-01-01'' w = (Inr ''999-01-01'', w)
   \<and> format_date ''01/01/0999'' w = (Inr ''999-01-01'', w)
   \<and> ''999-01-01'' \<noteq> ''0999-01-01''"
proof -
  obtain e where e: "strptime ''01/01/0999'' ''%Y-%m-%d'' = Inl e"
    using example_year_below_1000(2) by (auto simp: isl_def)
  have "format_date ''0999-01-01'' w = (Inr ''999-01-01'', w)"
    using format_date_iso [OF example_year_below_1000(1), of w]
    by (simp only: example_year_below_1000(4))
  moreover have "format_date ''01/01/0999'' w = (Inr ''999-01-01'', w)"
    using format_date_dmy [OF e example_year_below_1000(3), of w]
    by (simp only: example_year_below_1000(4))
  ultimately show ?thesis by simp
qed

text \<open>
  \<^verbatim>\<open>format_date\<close> never raises: on every string it returns a string, and when the input
  parses in neither format the result is the current date as \<^verbatim>\<open>strftime\<close> prints it. From
  the year 1000 on the result has the shape \<^verbatim>\<open>YYYY-MM-DD\<close>.
\<close>

lemma format_date_never_raises:
  "(\<exists>r w'. format_date s w = (Inr r, w'))
   \<and> (isl (strptime s ''%Y-%m-%d'') \<and> isl (strptime s ''%d/%m/%Y'') \<longrightarrow>
        format_date s w =
          (Inr (strftime (clock w (clock_reads w)) ''%Y-%m-%d''),
           w\<lparr>clock_reads := Suc (clock_reads w)\<rparr>))
   \<and> (\<exists>r w' dt. format_date s w = (Inr r, w') \<and> r = strftime dt ''%Y-%m-%d''
         \<and> (valid_date (clock w (clock_reads w)) \<longrightarrow> valid_date dt)
         \<and> (valid_date dt \<and> 1000 \<le> year dt \<longrightarrow> is_YYYY_MM_DD r))"
proof (intro conjI impI)
  show "\<exists>r w'. format_date s w = (Inr r, w')"
    using format_date_Inr [of s w] by blast
next
  assume "isl (strptime s ''%Y-%m-%d'') \<and> isl (strptime s ''%d/%m/%Y'')"
  then obtain e e' where "strptime s ''%Y-%m-%d'' = Inl e" "strptime s ''%d/%m/%Y'' = Inl e'"
    by (auto simp: isl_def)
  then show "format_date s w =
          (Inr (strftime (clock w (clock_reads w)) ''%Y-%m-%d''),
           w\<lparr>clock_reads := Suc (clock_reads w)\<rparr>)"
    by (rule format_date_today)
next
  show "\<exists>r w' dt. format_date s w = (Inr r, w') \<and> r = strftime dt ''%Y-%m-%d''
         \<and> (valid_date (clock w (clock_reads w)) \<longrightarrow> valid_date dt)
         \<and> (valid_date dt \<and> 1000 \<le> year dt \<longrightarrow> is_YYYY_MM_DD r)"
  proof (cases rule: format_date_cases [of s w])
    case (iso dt)
    then show ?thesis using is_YYYY_MM_DD_strftime by blast
  next
    case (dmy e dt)
    then show ?thesis using is_YYYY_MM_DD_strftime by blast
  next
    case (today e e')
    then show ?thesis using is_YYYY_MM_DD_strftime by blast
  qed
qed

text \<open>
  Claim C3 fails on the code for years below 1000, by the same missing padding: the input
  \<^verbatim>\<open>0001-01-01\<close> parses in the first format and is returned as the seven characters
  \<^verbatim>\<open>1-01-01\<close>, which do not have the shape \<^verbatim>\<open>YYYY-MM-DD\<close>.
\<close>

theorem format_date_year_1_not_YYYY_MM_DD:
  "format_date ''0001-01-01'' w = (Inr ''1-01-01'', w) \<and> \<not> is_YYYY_MM_DD ''1-01-01''"
proof -
  have "format_date ''0001-01-01'' w = (Inr ''1-01-01'', w)"
    using format_date_iso [OF example_year_below_1000(5), of w]
    by (simp only: example_year_below_1000(6))
  moreover have "\<not> is_YYYY_MM_DD ''1-01-01''"
    by (simp add: is_YYYY_MM_DD_def)
  ultimately show ?thesis by simp
qed

subsection \<open>Request paths\<close>

text \<open>
  Claim C4. For every symbol, \<^verbatim>\<open>get_company_overview\<close> issues exactly one request, to
  the base URL followed by \<^verbatim>\<open>/v1/company/report/{symbol}/?sections=overview\<close>; for
  \<^verbatim>\<open>BBCA\<close> the path is \<^verbatim>\<open>/v1/company/report/BBCA/?sections=overview\<close>. This holds in both
  variants.
\<close>

theorem get_company_overview_request_path:
  "requested (snd (groq_get_company_overview floatstr g stock w)) =
     requested w @ [(''https://api.sectors.app'' @ ''/v1/company/report/'' @ stock @ ''/?sections=overview'',
                     [(''Authorization'', SECTORS_API_KEY g)])]
   \<and> requested (snd (llama_get_company_overview g stock w)) =
     requested w @ [(''https://api.sectors.app'' @ ''/v1/company/report/'' @ stock @ ''/?sections=overview'',
                     [(''Authorization'', SECTORS_API_KEY g)])]
   \<and> requested (snd (groq_get_company_overview floatstr g ''BBCA'' w)) =
     requested w @ [(''https://api.sectors.app'' @ ''/v1/company/report/BBCA/?sections=overview'',
                     [(''Authorization'', SECTORS_API_KEY g)])]
   \<and> requested (snd (llama_get_company_overview g ''BBCA'' w)) =
     requested w @ [(''https://api.sectors.app'' @ ''/v1/company/report/BBCA/?sections=overview'',
                     [(''Authorization'', SECTORS_API_KEY g)])]"
  by (simp add: groq_get_company_overview_def llama_get_company_overview_def
      groq_retrieve_world llama_retrieve_world)

theorem get_company_overview_request_path_witness:
  "requested (snd (groq_get_company_overview example_floatstr example_globals ''BBCA'' example_world))
     = [(''https://api.sectors.app/v1/company/report/BBCA/?sections=overview'',
         [(''Authorization'', Some ''secret'')])]
   \<and> requested (snd (llama_get_company_overview example_globals ''BBCA'' example_world))
     = [(''https://api.sectors.app/v1/company/report/BBCA/?sections=overview'',
         [(''Authorization'', Some ''secret'')])]"
  using get_company_overview_request_path
    [of example_floatstr example_globals "''BBCA''" example_world]
  by (simp add: example_world_simps example_globals_def)

text \<open>
  Claim C5. \<^verbatim>\<open>get_daily_tx\<close> issues exactly one request, to
  \<^verbatim>\<open>/v1/daily/{symbol}/?start={start}&end={end}\<close>: with the dates as given in the groq
  variant, with the dates as \<^verbatim>\<open>format_date\<close> returns them in the llama variant; these are
  the dates as given when they are already normalized, that is, when \<^verbatim>\<open>format_date\<close>
  returns them unchanged. For \<^verbatim>\<open>BBCA\<close>, 2024-06-01 and 2024-06-30 the path is
  \<^verbatim>\<open>/v1/daily/BBCA/?start=2024-06-01&end=2024-06-30\<close> in both variants.
\<close>

theorem get_daily_tx_request_path:
  "requested (snd (groq_get_daily_tx floatstr g stock start_date end_date w)) =
     requested w @ [(''https://api.sectors.app'' @ ''/v1/daily/'' @ stock @ ''/?start='' @ start_date
                       @ ''&end='' @ end_date,
                     [(''Authorization'', SECTORS_API_KEY g)])]
   \<and> (\<exists>start' w1 end' w2.
         format_date start_date w = (Inr start', w1) \<and> format_date end_date w1 = (Inr end', w2)
       \<and> requested (snd (llama_get_daily_tx g stock start_date end_date w)) =
           requested w @ [(''https://api.sectors.app'' @ ''/v1/daily/'' @ stock @ ''/?start='' @ start'
                             @ ''&end='' @ end',
                           [(''Authorization'', SECTORS_API_KEY g)])])
   \<and> (format_date start_date w = (Inr start_date, w)
        \<and> format_date end_date w = (Inr end_date, w) \<longrightarrow>
        requested (snd (llama_get_daily_tx g stock start_date end_date w)) =
           requested w @ [(''https://api.sectors.app'' @ ''/v1/daily/'' @ stock @ ''/?start=''
                             @ start_date @ ''&end='' @ end_date,
                           [(''Authorization'', SECTORS_API_KEY g)])])
   \<and> requested (snd (groq_get_daily_tx floatstr g ''BBCA'' ''2024-06-01'' ''2024-06-30'' w)) =
     requested w @ [(''https://api.sectors.app'' @ ''/v1/daily/BBCA/?start=2024-06-01&end=2024-06-30'',
                     [(''Authorization'', SECTORS_API_KEY g)])]
   \<and> requested (snd (llama_get_daily_tx g ''BBCA'' ''2024-06-01'' ''2024-06-30'' w)) =
     requested w @ [(''https://api.sectors.app'' @ ''/v1/daily/BBCA/?start=2024-06-01&end=2024-06-30'',
                     [(''Authorization'', SECTORS_API_KEY g)])]"
proof (intro conjI impI)
  show "requested (snd (groq_get_daily_tx floatstr g stock start_date end_date w)) =
     requested w @ [(''https://api.sectors.app'' @ ''/v1/daily/'' @ stock @ ''/?start='' @ start_date
                       @ ''&end='' @ end_date,
                     [(''Authorization'', SECTORS_API_KEY g)])]"
    by (simp add: groq_get_daily_tx_def groq_retrieve_world)
next
  obtain start' w1 where s: "format_date start_date w = (Inr start', w1)"
    using format_date_Inr [of start_date w] by blast
  obtain end' w2 where e: "format_date end_date w1 = (Inr end', w2)"
    using format_date_Inr [of end_date w1] by blast
  from llama_get_daily_tx_requested [OF s e] s e
  show "\<exists>start' w1 end' w2.
         format_date start_date w = (Inr start', w1) \<and> format_date end_date w1 = (Inr end', w2)
       \<and> requested (snd (llama_get_daily_tx g stock start_date end_date w)) =
           requested w @ [(''https://api.sectors.app'' @ ''/v1/daily/'' @ stock @ ''/?start='' @ start'
                             @ ''&end='' @ end',
                           [(''Authorization'', SECTORS_API_KEY g)])]"
    by blast
next
  assume n: "format_date start_date w = (Inr start_date, w)
        \<and> format_date end_date w = (Inr end_date, w)"
  show "requested (snd (llama_get_daily_tx g stock start_date end_date w)) =
           requested w @ [(''https://api.sectors.app'' @ ''/v1/daily/'' @ stock @ ''/?start=''
                             @ start_date @ ''&end='' @ end_date,
                           [(''Authorization'', SECTORS_API_KEY g)])]"
    using n by (intro llama_get_daily_tx_requested [where ?w1.0 = w and ?w2.0 = w]) simp_all
next
  show "requested (snd (groq_get_daily_tx floatstr g ''BBCA'' ''2024-06-01'' ''2024-06-30'' w)) =
     requested w @ [(''https://api.sectors.app'' @ ''/v1/daily/BBCA/?start=2024-06-01&end=2024-06-30'',
                     [(''Authorization'', SECTORS_API_KEY g)])]"
    by (simp add: groq_get_daily_tx_def groq_retrieve_world)
next
  note f = example_format_date [of w]
  from llama_get_daily_tx_requested [OF f, of g "''BBCA''"]
  show "requested (snd (llama_get_daily_tx g ''BBCA'' ''2024-06-01'' ''2024-06-30'' w)) =
     requested w @ [(''https://api.sectors.app'' @ ''/v1/daily/BBCA/?start=2024-06-01&end=2024-06-30'',
                     [(''Authorization'', SECTORS_API_KEY g)])]"
    by simp
qed

theorem get_daily_tx_request_path_witness:
  "format_date ''2024-06-01'' example_world = (Inr ''2024-06-01'', example_world)
   \<and> format_date ''2024-06-30'' example_world = (Inr ''2024-06-30'', example_world)
   \<and> requested (snd (llama_get_daily_tx example_globals ''BBCA'' ''2024-06-01'' ''2024-06-30''
                       example_world))
     = [(''https://api.sectors.app/v1/daily/BBCA/?start=2024-06-01&end=2024-06-30'',
         [(''Authorization'', Some ''secret'')])]
   \<and> requested (snd (groq_get_daily_tx example_floatstr example_globals ''BBCA'' ''2024-06-01''
                       ''2024-06-30'' example_world))
     = [(''https://api.sectors.app/v1/daily/BBCA/?start=2024-06-01&end=2024-06-30'',
         [(''Authorization'', Some ''secret'')])]"
proof -
  note f = example_format_date [of example_world]
  from get_daily_tx_request_path
    [where floatstr = example_floatstr and g = example_globals and stock = "''BBCA''"
       and start_date = "''2024-06-01''" and end_date = "''2024-06-30''" and w = example_world] f
  have "requested (snd (llama_get_daily_tx example_globals ''BBCA'' ''2024-06-01'' ''2024-06-30''
           example_world)) =
        requested example_world @ [(''https://api.sectors.app'' @ ''/v1/daily/'' @ ''BBCA'' @ ''/?start=''
           @ ''2024-06-01'' @ ''&end='' @ ''2024-06-30'',
           [(''Authorization'', SECTORS_API_KEY example_globals)])]"
    and "requested (snd (groq_get_daily_tx example_floatstr example_globals ''BBCA'' ''2024-06-01''
            ''2024-06-30'' example_world)) =
        requested example_world @ [(''https://api.sectors.app'' @ ''/v1/daily/'' @ ''BBCA'' @ ''/?start=''
           @ ''2024-06-01'' @ ''&end='' @ ''2024-06-30'',
           [(''Authorization'', SECTORS_API_KEY example_globals)])]"
    by blast+
  then show ?thesis
    using f by (simp add: example_world_simps example_globals_def)
qed

text \<open>
  Claim C6. Calling \<^verbatim>\<open>get_top_companies_by_tx_volume\<close> without \<^verbatim>\<open>top_n\<close> is the same as
  calling it with \<^verbatim>\<open>top_n = 5\<close>, and the request it issues ends in \<^verbatim>\<open>&n_stock=5\<close>, in
  both variants.
\<close>

theorem get_top_companies_default_top_n:
  "groq_get_top_companies_by_tx_volume floatstr g start_date end_date None w =
     groq_get_top_companies_by_tx_volume floatstr g start_date end_date (Some 5) w
   \<and> llama_get_top_companies_by_tx_volume g start_date end_date None w =
     llama_get_top_companies_by_tx_volume g start_date end_date (Some 5) w
   \<and> requested (snd (groq_get_top_companies_by_tx_volume floatstr g start_date end_date None w)) =
     requested w @ [(''https://api.sectors.app'' @ ''/v1/most-traded/?start='' @ start_date
                       @ ''&end='' @ end_date @ ''&n_stock=5'',
                     [(''Authorization'', SECTORS_API_KEY g)])]
   \<and> (\<exists>start' w1 end' w2.
         format_date start_date w = (Inr start', w1) \<and> format_date end_date w1 = (Inr end', w2)
       \<and> requested (snd (llama_get_top_companies_by_tx_volume g start_date end_date None w)) =
           requested w @ [(''https://api.sectors.app'' @ ''/v1/most-traded/?start='' @ start'
                             @ ''&end='' @ end' @ ''&n_stock=5'',
                           [(''Authorization'', SECTORS_API_KEY g)])])"
proof -
  have five: "str_int 5 = ''5''" by code_simp
  obtain start' where s: "format_date start_date w = (Inr start', snd (format_date start_date w))"
    using format_date_Inr [of start_date w] by (metis prod.collapse fst_conv)
  define w1 where "w1 = snd (format_date start_date w)"
  obtain end' where e: "format_date end_date w1 = (Inr end', snd (format_date end_date w1))"
    using format_date_Inr [of end_date w1] by (metis prod.collapse fst_conv)
  define w2 where "w2 = snd (format_date end_date w1)"
  have r: "requested w2 = requested w"
    by (simp add: w2_def w1_def format_date_requested)
  have "requested (snd (llama_get_top_companies_by_tx_volume g start_date end_date None w)) =
           requested w @ [(''https://api.sectors.app'' @ ''/v1/most-traded/?start='' @ start'
                             @ ''&end='' @ end' @ ''&n_stock=5'',
                           [(''Authorization'', SECTORS_API_KEY g)])]"
    using s e r
    by (simp add: llama_get_top_companies_by_tx_volume_def w1_def [symmetric] w2_def [symmetric]
        llama_retrieve_world five)
  with s e show ?thesis
    by (auto simp add: groq_get_top_companies_by_tx_volume_def
        llama_get_top_companies_by_tx_volume_def groq_retrieve_world five
        w1_def [symmetric] w2_def [symmetric])
qed

theorem get_top_companies_default_top_n_witness:
  "requested (snd (groq_get_top_companies_by_tx_volume example_floatstr example_globals
                     ''2024-06-01'' ''2024-06-30'' None example_world))
     = [(''https://api.sectors.app/v1/most-traded/?start=2024-06-01&end=2024-06-30&n_stock=5'',
         [(''Authorization'', Some ''secret'')])]
   \<and> llama_get_top_companies_by_tx_volume example_globals ''2024-06-01'' ''2024-06-30'' None
         example_world
     = llama_get_top_companies_by_tx_volume example_globals ''2024-06-01'' ''2024-06-30'' (Some 5)
         example_world"
proof -
  from get_top_companies_default_top_n
    [of example_floatstr example_globals "''2024-06-01''" "''2024-06-30''" example_world]
  have "requested (snd (groq_get_top_companies_by_tx_volume example_floatstr example_globals
                     ''2024-06-01'' ''2024-06-30'' None example_world))
     = requested example_world @ [(''https://api.sectors.app'' @ ''/v1/most-traded/?start=''
           @ ''2024-06-01'' @ ''&end='' @ ''2024-06-30'' @ ''&n_stock=5'',
         [(''Authorization'', SECTORS_API_KEY example_globals)])]"
    and "llama_get_top_companies_by_tx_volume example_globals ''2024-06-01'' ''2024-06-30'' None
         example_world
     = llama_get_top_companies_by_tx_volume example_globals ''2024-06-01'' ''2024-06-30'' (Some 5)
         example_world"
    by blast+
  then show ?thesis
    by (simp add: example_world_simps example_globals_def)
qed

subsection \<open>The duplicate definition in \<^verbatim>\<open>groq_base.py\<close>\<close>

text \<open>
  Claim C7. After the first \<^verbatim>\<open>def get_company_overview\<close> the name denotes the tool of
  line 22, and after the module is loaded it denotes the tool of line 28: the second
  definition has replaced the first. The catalog \<^verbatim>\<open>tools\<close> holds the tool of line 28,
  whose function is the second \<^verbatim>\<open>get_company_overview\<close> and for every stock requests
  \<^verbatim>\<open>/v1/company/report/{stock}/?sections=overview\<close>. The tool of line 22 is bound to no
  name and is not in the catalog, so nothing can call it.
\<close>

theorem groq_second_definition_overrides_first:
  "fold bind_def [groq_tool_line22 floatstr g] Map.empty ''get_company_overview''
     = Some (groq_tool_line22 floatstr g)
   \<and> groq_namespace floatstr g ''get_company_overview'' = Some (groq_tool_line28 floatstr g)
   \<and> groq_tools floatstr g =
       Inr [groq_tool_line28 floatstr g, groq_tool_line34 floatstr g, groq_tool_line40 floatstr g]
   \<and> tool_func (groq_tool_line28 floatstr g) = Fn_stock (groq_get_company_overview floatstr g)
   \<and> groq_get_company_overview floatstr g stock w =
       groq_retrieve_from_endpoint floatstr g
         (''https://api.sectors.app'' @ ''/v1/company/report/'' @ stock @ ''/?sections=overview'') w
   \<and> requested (snd (groq_get_company_overview floatstr g stock w)) =
       requested w @ [(''https://api.sectors.app'' @ ''/v1/company/report/'' @ stock @ ''/?sections=overview'',
                       [(''Authorization'', SECTORS_API_KEY g)])]
   \<and> (\<forall>n. groq_namespace floatstr g n \<noteq> Some (groq_tool_line22 floatstr g))
   \<and> groq_tool_line22 floatstr g \<notin>
       set [groq_tool_line28 floatstr g, groq_tool_line34 floatstr g, groq_tool_line40 floatstr g]"
proof (intro conjI allI)
  show "fold bind_def [groq_tool_line22 floatstr g] Map.empty ''get_company_overview''
     = Some (groq_tool_line22 floatstr g)"
    by (simp add: bind_def_def groq_tool_names)
  show "groq_namespace floatstr g ''get_company_overview'' = Some (groq_tool_line28 floatstr g)"
    by (simp add: groq_namespace_eq)
  show "groq_tools floatstr g =
       Inr [groq_tool_line28 floatstr g, groq_tool_line34 floatstr g, groq_tool_line40 floatstr g]"
    by (simp add: groq_tools_def groq_namespace_eq)
  show "tool_func (groq_tool_line28 floatstr g) = Fn_stock (groq_get_company_overview floatstr g)"
    by (simp add: groq_tool_line28_def tool_def)
  show f: "groq_get_company_overview floatstr g stock w =
       groq_retrieve_from_endpoint floatstr g
         (''https://api.sectors.app'' @ ''/v1/company/report/'' @ stock @ ''/?sections=overview'') w"
    by (simp add: groq_get_company_overview_def)
  show "requested (snd (groq_get_company_overview floatstr g stock w)) =
       requested w @ [(''https://api.sectors.app'' @ ''/v1/company/report/'' @ stock @ ''/?sections=overview'',
                       [(''Authorization'', SECTORS_API_KEY g)])]"
    by (simp only: f groq_retrieve_world) simp
  show "groq_namespace floatstr g n \<noteq> Some (groq_tool_line22 floatstr g)" for n
    using groq_tools_distinct [of floatstr g]
    by (auto simp add: groq_namespace_eq)
  show "groq_tool_line22 floatstr g \<notin>
       set [groq_tool_line28 floatstr g, groq_tool_line34 floatstr g, groq_tool_line40 floatstr g]"
    using groq_tools_distinct [of floatstr g] by simp
qed

theorem groq_second_definition_overrides_first_witness:
  "groq_namespace example_floatstr example_globals ''get_company_overview''
     = Some (groq_tool_line28 example_floatstr example_globals)
   \<and> groq_tools example_floatstr example_globals =
       Inr [groq_tool_line28 example_floatstr example_globals,
            groq_tool_line34 example_floatstr example_globals,
            groq_tool_line40 example_floatstr example_globals]
   \<and> tool_func (groq_tool_line28 example_floatstr example_globals)
       = Fn_stock (groq_get_company_overview example_floatstr example_globals)
   \<and> requested (snd (groq_get_company_overview example_floatstr example_globals ''BBCA''
                       example_world)) =
       [(''https://api.sectors.app/v1/company/report/BBCA/?sections=overview'',
         [(''Authorization'', Some ''secret'')])]
   \<and> groq_tool_line22 example_floatstr example_globals \<notin>
       set [groq_tool_line28 example_floatstr example_globals,
            groq_tool_line34 example_floatstr example_globals,
            groq_tool_line40 example_floatstr example_globals]"
proof -
  from groq_second_definition_overrides_first
    [of example_floatstr example_globals "''BBCA''" example_world]
  have "groq_namespace example_floatstr example_globals ''get_company_overview''
     = Some (groq_tool_line28 example_floatstr example_globals)"
    and "groq_tools example_floatstr example_globals =
       Inr [groq_tool_line28 example_floatstr example_globals,
            groq_tool_line34 example_floatstr example_globals,
            groq_tool_line40 example_floatstr example_globals]"
    and "tool_func (groq_tool_line28 example_floatstr example_globals)
       = Fn_stock (groq_get_company_overview example_floatstr example_globals)"
    and "requested (snd (groq_get_company_overview example_floatstr example_globals ''BBCA''
                       example_world)) =
       requested example_world
       @ [(''https://api.sectors.app'' @ ''/v1/company/report/'' @ ''BBCA'' @ ''/?sections=overview'',
           [(''Authorization'', SECTORS_API_KEY example_globals)])]"
    and "groq_tool_line22 example_floatstr example_globals \<notin>
       set [groq_tool_line28 example_floatstr example_globals,
            groq_tool_line34 example_floatstr example_globals,
            groq_tool_line40 example_floatstr example_globals]"
    by blast+
  then show ?thesis
    by (simp add: example_world_simps example_globals_def)
qed

subsection \<open>Successful responses\<close>

text \<open>
  Claim C8, as amended. For a response with a status from 200 to 299 whose body decodes
  to the JSON value \<open>body\<close>, the llama variant of \<^verbatim>\<open>retrieve_from_endpoint\<close> returns
  \<open>body\<close> itself and the groq variant returns the string \<^verbatim>\<open>json.dumps(body)\<close>; nothing
  else happens than the one request being added to the log.
\<close>

theorem retrieve_from_endpoint_pass_through:
  assumes "network w (requested w) (url, [(''Authorization'', SECTORS_API_KEY g)]) = Inr r"
    and "200 \<le> status_code r" and "status_code r < 300"
    and "json_result r = Inr body"
  shows "llama_retrieve_from_endpoint g url w =
           (Inr body, w\<lparr>requested := requested w @ [(url, [(''Authorization'', SECTORS_API_KEY g)])]\<rparr>)
       \<and> groq_retrieve_from_endpoint floatstr g url w =
           (Inr (JStr (json_dumps floatstr body)),
            w\<lparr>requested := requested w @ [(url, [(''Authorization'', SECTORS_API_KEY g)])]\<rparr>)"
proof -
  have ok: "raise_for_status r = Inr ()"
    using assms(3) by (simp add: raise_for_status_ok)
  have "fst (llama_retrieve_from_endpoint g url w) = Inr body"
    "fst (groq_retrieve_from_endpoint floatstr g url w) = Inr (JStr (json_dumps floatstr body))"
    using assms(1,4) ok by (simp_all add: groq_retrieve_result llama_retrieve_result)
  then show ?thesis
    using groq_retrieve_world [of floatstr g url w] llama_retrieve_world [of g url w]
    by (metis prod.collapse)
qed

theorem retrieve_from_endpoint_pass_through_witness:
  "network example_world (requested example_world)
       (example_url, [(''Authorization'', SECTORS_API_KEY example_globals)]) = Inr example_response
   \<and> 200 \<le> status_code example_response \<and> status_code example_response < 300
   \<and> json_result example_response = Inr (JObj [(''symbol'', JStr ''BBCA''), (''volume'', JInt 5)])
   \<and> fst (llama_retrieve_from_endpoint example_globals example_url example_world)
       = Inr (JObj [(''symbol'', JStr ''BBCA''), (''volume'', JInt 5)])
   \<and> fst (groq_retrieve_from_endpoint example_floatstr example_globals example_url example_world)
       = Inr (JStr example_body_text)"
proof -
  have h: "network example_world (requested example_world)
       (example_url, [(''Authorization'', SECTORS_API_KEY example_globals)]) = Inr example_response"
    "200 \<le> status_code example_response" "status_code example_response < 300"
    "json_result example_response = Inr (JObj [(''symbol'', JStr ''BBCA''), (''volume'', JInt 5)])"
    by (simp_all add: example_world_simps example_response_simps)
  from retrieve_from_endpoint_pass_through [OF h, of example_floatstr]
  have "fst (llama_retrieve_from_endpoint example_globals example_url example_world)
       = Inr (JObj [(''symbol'', JStr ''BBCA''), (''volume'', JInt 5)])"
    and "fst (groq_retrieve_from_endpoint example_floatstr example_globals example_url example_world)
       = Inr (JStr (json_dumps example_floatstr
                      (JObj [(''symbol'', JStr ''BBCA''), (''volume'', JInt 5)])))"
    by (simp_all del: json_dumps.simps)
  then show ?thesis
    using h unfolding example_dumps by blast
qed

text \<open>
  The claim as first stated speaks of every response with a status from 200 to 299. A
  response with status 204 has no body to decode: \<^verbatim>\<open>response.json()\<close> raises, the groq
  variant propagates the exception and the llama variant returns the dictionary
  \<^verbatim>\<open>{"error": ...}\<close>, so neither passes a decoded body through.
\<close>

theorem successful_status_without_json_body:
  "200 \<le> status_code response_204 \<and> status_code response_204 < 300
   \<and> network world_204 (requested world_204)
       (example_url, [(''Authorization'', SECTORS_API_KEY example_globals)])
     = Inr response_204
   \<and> fst (groq_retrieve_from_endpoint example_floatstr example_globals example_url world_204)
     = Inl (RequestException ''Expecting value: line 1 column 1 (char 0)'')
   \<and> fst (llama_retrieve_from_endpoint example_globals example_url world_204)
     = Inr (JObj [(''error'', JStr ''Expecting value: line 1 column 1 (char 0)'')])"
proof -
  have "raise_for_status response_204 = Inr ()"
    by (simp add: raise_for_status_def example_response_simps)
  then show ?thesis
    by (simp add: groq_retrieve_result llama_retrieve_result example_world_simps
        example_response_simps)
qed

subsection \<open>Idempotence of date normalization\<close>

text \<open>
  Claim C9 fails on the code for years below 1000, by the same missing padding: the input
  \<^verbatim>\<open>01/01/0999\<close> is returned as \<^verbatim>\<open>999-01-01\<close>, which parses in neither format, so a second
  application returns the current date (here 2025-03-09) and not \<^verbatim>\<open>999-01-01\<close>.
\<close>

theorem format_date_not_idempotent_below_1000:
  "fst (format_date ''01/01/0999'' example_world) = Inr ''999-01-01''
   \<and> fst (format_date ''999-01-01'' example_world) = Inr ''2025-03-09''
   \<and> ''2025-03-09'' \<noteq> ''999-01-01''"
proof -
  obtain e where e: "strptime ''01/01/0999'' ''%Y-%m-%d'' = Inl e"
    using example_year_below_1000(2) by (auto simp: isl_def)
  obtain e1 e2 where u: "strptime ''999-01-01'' ''%Y-%m-%d'' = Inl e1"
    "strptime ''999-01-01'' ''%d/%m/%Y'' = Inl e2"
    using example_year_below_1000(7,8) by (auto simp: isl_def)
  have "fst (format_date ''01/01/0999'' example_world) = Inr ''999-01-01''"
    using format_date_dmy [OF e example_year_below_1000(3), of example_world]
    by (simp only: example_year_below_1000(4) fst_conv)
  moreover have "fst (format_date ''999-01-01'' example_world) = Inr ''2025-03-09''"
    using format_date_today [OF u, of example_world]
    by (simp add: example_world_simps example_strftime)
  ultimately show ?thesis by simp
qed

subsection \<open>The result type in the groq variant\<close>

text \<open>
  Claim C10. Whenever the groq variant of \<^verbatim>\<open>retrieve_from_endpoint\<close> returns, the value
  is a string, namely \<^verbatim>\<open>json.dumps\<close> of the decoded body of the response to its request,
  and never a dictionary; and whenever one of the three tools of the groq variant
  returns, the value is \<^verbatim>\<open>json.dumps\<close> of the decoded body of the response to the request
  for that tool's URL.
\<close>

theorem groq_results_are_json_strings:
  "(fst (groq_retrieve_from_endpoint floatstr g url w) = Inr v \<longrightarrow>
      (\<exists>r body. network w (requested w) (url, [(''Authorization'', SECTORS_API_KEY g)]) = Inr r
           \<and> json_result r = Inr body \<and> v = JStr (json_dumps floatstr body))
      \<and> (\<forall>kvs. v \<noteq> JObj kvs))
   \<and> (fst (groq_get_company_overview floatstr g stock w) = Inr v \<longrightarrow>
      (\<exists>r body. network w (requested w)
             (''https://api.sectors.app/v1/company/report/'' @ stock @ ''/?sections=overview'',
              [(''Authorization'', SECTORS_API_KEY g)]) = Inr r
           \<and> json_result r = Inr body \<and> v = JStr (json_dumps floatstr body)))
   \<and> (fst (groq_get_top_companies_by_tx_volume floatstr g start_date end_date top_n w) = Inr v
        \<longrightarrow>
      (\<exists>r body. network w (requested w)
             (''https://api.sectors.app/v1/most-traded/?start='' @ start_date @ ''&end='' @ end_date
                @ ''&n_stock='' @ str_int (case top_n of None \<Rightarrow> 5 | Some n \<Rightarrow> n),
              [(''Authorization'', SECTORS_API_KEY g)]) = Inr r
           \<and> json_result r = Inr body \<and> v = JStr (json_dumps floatstr body)))
   \<and> (fst (groq_get_daily_tx floatstr g stock start_date end_date w) = Inr v \<longrightarrow>
      (\<exists>r body. network w (requested w)
             (''https://api.sectors.app/v1/daily/'' @ stock @ ''/?start='' @ start_date
                @ ''&end='' @ end_date,
              [(''Authorization'', SECTORS_API_KEY g)]) = Inr r
           \<and> json_result r = Inr body \<and> v = JStr (json_dumps floatstr body)))"
proof (intro conjI impI)
  assume a: "fst (groq_retrieve_from_endpoint floatstr g url w) = Inr v"
  from groq_retrieve_Inr [OF a]
  show "\<exists>r body. network w (requested w) (url, [(''Authorization'', SECTORS_API_KEY g)]) = Inr r
           \<and> json_result r = Inr body \<and> v = JStr (json_dumps floatstr body)" .
  then show "\<forall>kvs. v \<noteq> JObj kvs" by auto
next
  assume "fst (groq_get_company_overview floatstr g stock w) = Inr v"
  then have "fst (groq_retrieve_from_endpoint floatstr g
      (''https://api.sectors.app/v1/company/report/'' @ stock @ ''/?sections=overview'') w) = Inr v"
    by (simp add: groq_get_company_overview_def)
  then show "\<exists>r body. network w (requested w)
             (''https://api.sectors.app/v1/company/report/'' @ stock @ ''/?sections=overview'',
              [(''Authorization'', SECTORS_API_KEY g)]) = Inr r
           \<and> json_result r = Inr body \<and> v = JStr (json_dumps floatstr body)"
    by (rule groq_retrieve_Inr)
next
  assume "fst (groq_get_top_companies_by_tx_volume floatstr g start_date end_date top_n w) = Inr v"
  then have "fst (groq_retrieve_from_endpoint floatstr g
      (''https://api.sectors.app/v1/most-traded/?start='' @ start_date @ ''&end='' @ end_date
         @ ''&n_stock='' @ str_int (case top_n of None \<Rightarrow> 5 | Some n \<Rightarrow> n)) w) = Inr v"
    by (simp add: groq_get_top_companies_by_tx_volume_def)
  then show "\<exists>r body. network w (requested w)
             (''https://api.sectors.app/v1/most-traded/?start='' @ start_date @ ''&end='' @ end_date
                @ ''&n_stock='' @ str_int (case top_n of None \<Rightarrow> 5 | Some n \<Rightarrow> n),
              [(''Authorization'', SECTORS_API_KEY g)]) = Inr r
           \<and> json_result r = Inr body \<and> v = JStr (json_dumps floatstr body)"
    by (rule groq_retrieve_Inr)
next
  assume "fst (groq_get_daily_tx floatstr g stock start_date end_date w) = Inr v"
  then have "fst (groq_retrieve_from_endpoint floatstr g
      (''https://api.sectors.app/v1/daily/'' @ stock @ ''/?start='' @ start_date
         @ ''&end='' @ end_date) w) = Inr v"
    by (simp add: groq_get_daily_tx_def)
  then show "\<exists>r body. network w (requested w)
             (''https://api.sectors.app/v1/daily/'' @ stock @ ''/?start='' @ start_date
                @ ''&end='' @ end_date,
              [(''Authorization'', SECTORS_API_KEY g)]) = Inr r
           \<and> json_result r = Inr body \<and> v = JStr (json_dumps floatstr body)"
    by (rule groq_retrieve_Inr)
qed

lemma groq_retrieve_example:
  "fst (groq_retrieve_from_endpoint example_floatstr example_globals url example_world)
     = Inr (JStr example_body_text)"
  by (simp add: groq_retrieve_result example_world_simps example_response_simps
      raise_for_status_def example_dumps del: json_dumps.simps)

theorem groq_results_are_json_strings_witness:
  "fst (groq_retrieve_from_endpoint example_floatstr example_globals example_url example_world)
       = Inr (JStr example_body_text)
   \<and> fst (groq_get_company_overview example_floatstr example_globals ''BBCA'' example_world)
       = Inr (JStr example_body_text)
   \<and> fst (groq_get_top_companies_by_tx_volume example_floatstr example_globals ''2024-06-01''
            ''2024-06-30'' None example_world)
       = Inr (JStr example_body_text)
   \<and> fst (groq_get_daily_tx example_floatstr example_globals ''BBCA'' ''2024-06-01''
            ''2024-06-30'' example_world)
       = Inr (JStr example_body_text)
   \<and> (\<forall>kvs. JStr example_body_text \<noteq> (JObj kvs :: unit json))
   \<and> (\<exists>r body. network example_world (requested example_world)
           (''https://api.sectors.app/v1/daily/'' @ ''BBCA'' @ ''/?start='' @ ''2024-06-01''
              @ ''&end='' @ ''2024-06-30'',
            [(''Authorization'', SECTORS_API_KEY example_globals)]) = Inr r
         \<and> json_result r = Inr body \<and> JStr example_body_text = JStr (json_dumps example_floatstr body))"
proof -
  have h: "fst (groq_retrieve_from_endpoint example_floatstr example_globals example_url example_world)
       = Inr (JStr example_body_text)"
    "fst (groq_get_company_overview example_floatstr example_globals ''BBCA'' example_world)
       = Inr (JStr example_body_text)"
    "fst (groq_get_top_companies_by_tx_volume example_floatstr example_globals ''2024-06-01''
            ''2024-06-30'' None example_world)
       = Inr (JStr example_body_text)"
    "fst (groq_get_daily_tx example_floatstr example_globals ''BBCA'' ''2024-06-01''
            ''2024-06-30'' example_world)
       = Inr (JStr example_body_text)"
    by (simp_all only: groq_get_company_overview_def groq_get_top_companies_by_tx_volume_def
        groq_get_daily_tx_def Let_def groq_retrieve_example)
  from groq_results_are_json_strings
    [where floatstr = example_floatstr and g = example_globals and url = example_url
       and w = example_world and v = "JStr example_body_text" and stock = "''BBCA''"
       and start_date = "''2024-06-01''" and end_date = "''2024-06-30''" and top_n = None] h
  have "\<forall>kvs. JStr example_body_text \<noteq> (JObj kvs :: unit json)"
    and "\<exists>r body. network example_world (requested example_world)
           (''https://api.sectors.app/v1/daily/'' @ ''BBCA'' @ ''/?start='' @ ''2024-06-01''
              @ ''&end='' @ ''2024-06-30'',
            [(''Authorization'', SECTORS_API_KEY example_globals)]) = Inr r
         \<and> json_result r = Inr body \<and> JStr example_body_text = JStr (json_dumps example_floatstr body)"
    by blast+
  with h show ?thesis by blast
qed

end
